theory Spec2Isabelle
  imports Main
begin

section \<open>Dates, times and exceptions\<close>

text \<open>
  The Python values the booking code computes with. A \<open>date\<close> is its proleptic Gregorian
  ordinal (\<open>date.toordinal()\<close>, at most \<open>MAXORDINAL\<close> for \<open>date.max\<close>), a naive \<open>time\<close> is
  the number of microseconds since midnight (below \<open>DAY\<close>), and a \<open>datetime\<close> is a date
  with a time. Comparison of two naive datetimes is lexicographic on (date, time).
\<close>

type_synonym date = nat
type_synonym time = nat

datatype datetime = DateTime (dt_date: date) (dt_time: time)

definition MAXORDINAL :: nat where
  "MAXORDINAL = 3652059"

definition HOUR :: nat where
  "HOUR = 3600000000"

definition DAY :: nat where
  "DAY = 86400000000"

definition mk_time :: "nat \<Rightarrow> nat \<Rightarrow> time" where
  "mk_time h m = h * HOUR + m * 60000000"

definition datetime_le :: "datetime \<Rightarrow> datetime \<Rightarrow> bool" where
  "datetime_le a b = (dt_date a < dt_date b \<or> (dt_date a = dt_date b \<and> dt_time a \<le> dt_time b))"

datatype exn = TypeError | OverflowError | ValueError | ConnectionError | IntegrityError

definition bind_exn :: "exn + 'a \<Rightarrow> ('a \<Rightarrow> exn + 'b) \<Rightarrow> exn + 'b" where
  "bind_exn m f = (case m of Inl e \<Rightarrow> Inl e | Inr x \<Rightarrow> f x)"

text \<open>
  \<open>datetime.combine(d, t)\<close> raises TypeError when an argument is \<open>None\<close>.
\<close>

definition combine :: "date option \<Rightarrow> time option \<Rightarrow> exn + datetime" where
  "combine d t = (case d of None \<Rightarrow> Inl TypeError
                  | Some d' \<Rightarrow> (case t of None \<Rightarrow> Inl TypeError | Some t' \<Rightarrow> Inr (DateTime d' t')))"

text \<open>
  \<open>dt + timedelta(hours=2.0)\<close>: the carry goes into the date, and a date beyond
  \<open>date.max\<close> raises OverflowError.
\<close>

definition add_2_hours :: "datetime \<Rightarrow> exn + datetime" where
  "add_2_hours dt =
     (if dt_time dt + 2 * HOUR < DAY then Inr (DateTime (dt_date dt) (dt_time dt + 2 * HOUR))
      else if dt_date dt + 1 > MAXORDINAL then Inl OverflowError
      else Inr (DateTime (dt_date dt + 1) (dt_time dt + 2 * HOUR - DAY)))"

text \<open>
  The date and time fields of a booking hold either a plain \<open>date\<close> / \<open>time\<close> or a
  \<open>datetime\<close>; the code tells them apart with \<open>isinstance(x, datetime)\<close> and takes
  \<open>x.date()\<close> or \<open>x.time()\<close> of a datetime.
\<close>

datatype dval = D_date date | D_datetime datetime
datatype tval = T_time time | T_datetime datetime

fun date_part :: "dval \<Rightarrow> date" where
  "date_part (D_datetime dt) = dt_date dt"
| "date_part (D_date d) = d"

fun time_part :: "tval \<Rightarrow> time" where
  "time_part (T_datetime dt) = dt_time dt"
| "time_part (T_time t) = t"

section \<open>Entity model\<close>

subsection \<open>models/tables.py\<close>

record RestaurantTable =
  t_id :: "int option"
  table_number :: string
  capacity :: int
  table_type :: string
  t_status :: string
  location :: "string option"
  description :: "string option"
  is_active :: bool
  t_created_at :: "datetime option"
  t_updated_at :: "datetime option"

text \<open>
  A row dictionary of \<open>restaurant_tables\<close>. Each entry is \<open>None\<close> when the key is
  absent; a nullable column has an optional value under its key.
\<close>

record RestaurantTable_dict =
  td_id :: "int option option"
  td_table_number :: "string option"
  td_capacity :: "int option"
  td_table_type :: "string option"
  td_status :: "string option"
  td_location :: "string option option"
  td_description :: "string option option"
  td_is_active :: "bool option"
  td_created_at :: "datetime option option"
  td_updated_at :: "datetime option option"

text \<open>\<open>data.get(key)\<close> and \<open>data.get(key, default)\<close>.\<close>

definition get_opt :: "'a option option \<Rightarrow> 'a option" where
  "get_opt e = (case e of None \<Rightarrow> None | Some v \<Rightarrow> v)"

definition get_default :: "'a option \<Rightarrow> 'a \<Rightarrow> 'a" where
  "get_default e d = (case e of None \<Rightarrow> d | Some v \<Rightarrow> v)"

definition table_from_dict :: "RestaurantTable_dict \<Rightarrow> RestaurantTable" where
  "table_from_dict data =
     \<lparr> t_id = get_opt (td_id data),
       table_number = get_default (td_table_number data) '''',
       capacity = get_default (td_capacity data) 2,
       table_type = get_default (td_table_type data) ''standard'',
       t_status = get_default (td_status data) ''available'',
       location = get_opt (td_location data),
       description = get_opt (td_description data),
       is_active = get_default (td_is_active data) True,
       t_created_at = get_opt (td_created_at data),
       t_updated_at = get_opt (td_updated_at data) \<rparr>"

subsection \<open>models/booking.py\<close>

record Booking =
  bid :: "int option"
  user_id :: int
  table_id :: int
  booking_date :: "dval option"
  booking_time :: "tval option"
  booking_end_time :: "tval option"
  number_of_guests :: int
  status :: string
  booking_notes :: "string option"
  created_at :: "datetime option"
  updated_at :: "datetime option"

record Booking_dict =
  d_id :: "int option option"
  d_user_id :: "int option"
  d_table_id :: "int option"
  d_booking_date :: "dval option option"
  d_booking_time :: "tval option option"
  d_booking_end_time :: "tval option option"
  d_number_of_guests :: "int option"
  d_status :: "string option"
  d_notes :: "string option option"
  d_created_at :: "datetime option option"
  d_updated_at :: "datetime option option"

definition empty_dict :: Booking_dict where
  "empty_dict =
     \<lparr> d_id = None, d_user_id = None, d_table_id = None, d_booking_date = None,
       d_booking_time = None, d_booking_end_time = None, d_number_of_guests = None,
       d_status = None, d_notes = None, d_created_at = None, d_updated_at = None \<rparr>"

text \<open>
  \<open>Booking.to_dict\<close>. The key \<open>id\<close> is never written. Without an end time, the end
  is the start plus two hours, of which only the time of day is kept; the key is left out
  when the start time or the date is missing. A \<open>time\<close> and a \<open>date\<close> are always true
  in a condition.
\<close>

definition to_dict :: "Booking \<Rightarrow> exn + Booking_dict" where
  "to_dict self =
     (let result = empty_dict
            \<lparr> d_user_id := Some (user_id self),
              d_table_id := Some (table_id self),
              d_booking_date := Some (map_option (\<lambda>v. D_date (date_part v)) (booking_date self)),
              d_booking_time := Some (map_option (\<lambda>v. T_time (time_part v)) (booking_time self)),
              d_number_of_guests := Some (number_of_guests self),
              d_status := Some (status self),
              d_notes := Some (booking_notes self),
              d_created_at := Some (created_at self),
              d_updated_at := Some (updated_at self) \<rparr>
      in case booking_end_time self of
           Some e \<Rightarrow> Inr (result\<lparr>d_booking_end_time := Some (Some (T_time (time_part e)))\<rparr>)
         | None \<Rightarrow>
             (case booking_time self of
                None \<Rightarrow> Inr result
              | Some bt \<Rightarrow>
                  (case booking_date self of
                     None \<Rightarrow> Inr result
                   | Some bd \<Rightarrow>
                       bind_exn (combine (Some (date_part bd)) (Some (time_part bt))) (\<lambda>booking_dt.
                       bind_exn (add_2_hours booking_dt) (\<lambda>end_dt.
                       Inr (result\<lparr>d_booking_end_time := Some (Some (T_time (dt_time end_dt)))\<rparr>))))))"

definition from_dict :: "Booking_dict \<Rightarrow> Booking" where
  "from_dict data =
     \<lparr> bid = get_opt (d_id data),
       user_id = get_default (d_user_id data) 0,
       table_id = get_default (d_table_id data) 0,
       booking_date = get_opt (d_booking_date data),
       booking_time = get_opt (d_booking_time data),
       booking_end_time = get_opt (d_booking_end_time data),
       number_of_guests = get_default (d_number_of_guests data) 1,
       status = get_default (d_status data) ''pending'',
       booking_notes = get_opt (d_notes data),
       created_at = get_opt (d_created_at data),
       updated_at = get_opt (d_updated_at data) \<rparr>"

section \<open>The store behind the driver\<close>

text \<open>
  The tables that \<open>PostgreSQLDriver\<close> reads and writes, as lists of row dictionaries, with
  the sequence of \<open>bookings.id\<close>, the clock of the database, the exceptions the driver
  raises for an operation (a lost connection, a missing relation) and the log of the
  statements the store has received.
\<close>

datatype db_op = Select string | Insert string | Update string | Delete string

record store =
  users_ids :: "int list"
  tables_rows :: "RestaurantTable_dict list"
  bookings_rows :: "Booking_dict list"
  bookings_id_seq :: int
  current_timestamp :: datetime
  faults :: "db_op \<Rightarrow> exn option"
  log :: "db_op list"

definition access :: "db_op \<Rightarrow> store \<Rightarrow> store" where
  "access op s = s\<lparr>log := log s @ [op]\<rparr>"

text \<open>
  \<open>driver.read\<close>: every entry of \<open>where\<close> is an equality on its column, and an equality
  with \<open>NULL\<close> holds for no row. An empty \<open>where\<close> selects every row.
\<close>

definition eq_cond :: "'a option \<Rightarrow> 'a option \<Rightarrow> bool" where
  "eq_cond w c = (case w of None \<Rightarrow> True | Some v \<Rightarrow> c = Some v)"

definition eq_cond_null :: "'a option option \<Rightarrow> 'a option option \<Rightarrow> bool" where
  "eq_cond_null w c =
     (case w of None \<Rightarrow> True | Some None \<Rightarrow> False | Some (Some v) \<Rightarrow> c = Some (Some v))"

definition row_matches :: "Booking_dict \<Rightarrow> Booking_dict \<Rightarrow> bool" where
  "row_matches where' r =
     (eq_cond_null (d_id where') (d_id r) \<and>
      eq_cond (d_user_id where') (d_user_id r) \<and>
      eq_cond (d_table_id where') (d_table_id r) \<and>
      eq_cond_null (d_booking_date where') (d_booking_date r) \<and>
      eq_cond_null (d_booking_time where') (d_booking_time r) \<and>
      eq_cond_null (d_booking_end_time where') (d_booking_end_time r) \<and>
      eq_cond (d_number_of_guests where') (d_number_of_guests r) \<and>
      eq_cond (d_status where') (d_status r) \<and>
      eq_cond_null (d_notes where') (d_notes r) \<and>
      eq_cond_null (d_created_at where') (d_created_at r) \<and>
      eq_cond_null (d_updated_at where') (d_updated_at r))"

definition driver_read_bookings :: "Booking_dict \<Rightarrow> store \<Rightarrow> (exn + Booking_dict list) \<times> store" where
  "driver_read_bookings where' s =
     (case faults s (Select ''bookings'') of
        Some e \<Rightarrow> (Inl e, access (Select ''bookings'') s)
      | None \<Rightarrow> (Inr (filter (row_matches where') (bookings_rows s)), access (Select ''bookings'') s))"

text \<open>\<open>driver.read_by_id\<close> is \<open>read_one\<close> with \<open>where = {'id': id_value}\<close>: the first row found.\<close>

definition driver_read_table_by_id ::
  "int \<Rightarrow> store \<Rightarrow> (exn + RestaurantTable_dict option) \<times> store" where
  "driver_read_table_by_id id_value s =
     (case faults s (Select ''restaurant_tables'') of
        Some e \<Rightarrow> (Inl e, access (Select ''restaurant_tables'') s)
      | None \<Rightarrow> (Inr (find (\<lambda>r. td_id r = Some (Some id_value)) (tables_rows s)),
                 access (Select ''restaurant_tables'') s))"

text \<open>
  The constraints of \<open>CREATE TABLE bookings\<close> (\<open>Booking.get_create_table_sql\<close>): the
  NOT NULL columns, the two foreign keys, \<open>CHECK (number_of_guests > 0)\<close> and
  \<open>CHECK (booking_end_time > booking_time)\<close>.
\<close>

definition bookings_constraints :: "store \<Rightarrow> Booking_dict \<Rightarrow> bool" where
  "bookings_constraints s r =
     ((case d_id r of Some (Some i) \<Rightarrow> True | _ \<Rightarrow> False) \<and>
      (case d_user_id r of Some u \<Rightarrow> u \<in> set (users_ids s) | None \<Rightarrow> False) \<and>
      (case d_table_id r of
         Some t \<Rightarrow> list_ex (\<lambda>row. td_id row = Some (Some t)) (tables_rows s)
       | None \<Rightarrow> False) \<and>
      (case d_booking_date r of Some (Some d) \<Rightarrow> True | _ \<Rightarrow> False) \<and>
      (case d_number_of_guests r of Some n \<Rightarrow> n > 0 | None \<Rightarrow> False) \<and>
      (case d_status r of Some st \<Rightarrow> True | None \<Rightarrow> False) \<and>
      (case d_booking_time r of
         Some (Some bt) \<Rightarrow>
           (case d_booking_end_time r of
              Some (Some et) \<Rightarrow> time_part et > time_part bt
            | _ \<Rightarrow> False)
       | _ \<Rightarrow> False))"

text \<open>
  \<open>driver.create(table, data, returning='id')\<close>. Empty data raise ValueError before any
  statement is sent. A column without a key takes its default: the next value of the
  sequence for \<open>id\<close>, \<open>'pending'\<close> for \<open>status\<close>, the current timestamp for the two
  timestamps. A statement that raises is rolled back.
\<close>

definition with_defaults :: "store \<Rightarrow> Booking_dict \<Rightarrow> Booking_dict" where
  "with_defaults s data =
     data\<lparr> d_id := (case d_id data of None \<Rightarrow> Some (Some (bookings_id_seq s)) | Some v \<Rightarrow> Some v),
           d_status := (case d_status data of None \<Rightarrow> Some ''pending'' | Some v \<Rightarrow> Some v),
           d_created_at :=
             (case d_created_at data of None \<Rightarrow> Some (Some (current_timestamp s)) | Some v \<Rightarrow> Some v),
           d_updated_at :=
             (case d_updated_at data of None \<Rightarrow> Some (Some (current_timestamp s)) | Some v \<Rightarrow> Some v) \<rparr>"

definition driver_create_booking :: "Booking_dict \<Rightarrow> store \<Rightarrow> (exn + int option) \<times> store" where
  "driver_create_booking data s =
     (if data = empty_dict then (Inl ValueError, s)
      else case faults s (Insert ''bookings'') of
             Some e \<Rightarrow> (Inl e, access (Insert ''bookings'') s)
           | None \<Rightarrow>
               (let row = with_defaults s data
                in if bookings_constraints s row \<and>
                      \<not> list_ex (\<lambda>r. d_id r = d_id row) (bookings_rows s)
                   then (Inr (get_opt (d_id row)),
                         access (Insert ''bookings'')
                           (s\<lparr>bookings_rows := bookings_rows s @ [row],
                              bookings_id_seq := bookings_id_seq s + 1\<rparr>))
                   else (Inl IntegrityError, access (Insert ''bookings'') s)))"

text \<open>
  \<open>driver.update_by_id(table, id_value, data)\<close>: \<open>UPDATE ... SET\<close> every key of the data
  \<open>WHERE id = id_value\<close>; the result is the number of rows updated.
\<close>

definition set_key :: "'a option \<Rightarrow> 'a option \<Rightarrow> 'a option" where
  "set_key new old = (case new of None \<Rightarrow> old | Some v \<Rightarrow> Some v)"

definition update_row :: "Booking_dict \<Rightarrow> Booking_dict \<Rightarrow> Booking_dict" where
  "update_row data r =
     \<lparr> d_id = set_key (d_id data) (d_id r),
       d_user_id = set_key (d_user_id data) (d_user_id r),
       d_table_id = set_key (d_table_id data) (d_table_id r),
       d_booking_date = set_key (d_booking_date data) (d_booking_date r),
       d_booking_time = set_key (d_booking_time data) (d_booking_time r),
       d_booking_end_time = set_key (d_booking_end_time data) (d_booking_end_time r),
       d_number_of_guests = set_key (d_number_of_guests data) (d_number_of_guests r),
       d_status = set_key (d_status data) (d_status r),
       d_notes = set_key (d_notes data) (d_notes r),
       d_created_at = set_key (d_created_at data) (d_created_at r),
       d_updated_at = set_key (d_updated_at data) (d_updated_at r) \<rparr>"

definition driver_update_booking_by_id ::
  "int \<Rightarrow> Booking_dict \<Rightarrow> store \<Rightarrow> (exn + nat) \<times> store" where
  "driver_update_booking_by_id id_value data s =
     (if data = empty_dict then (Inl ValueError, s)
      else case faults s (Update ''bookings'') of
             Some e \<Rightarrow> (Inl e, access (Update ''bookings'') s)
           | None \<Rightarrow>
               (let hit = (\<lambda>r. d_id r = Some (Some id_value))
                in if list_all (\<lambda>r. hit r \<longrightarrow> bookings_constraints s (update_row data r))
                        (bookings_rows s)
                   then (Inr (length (filter hit (bookings_rows s))),
                         access (Update ''bookings'')
                           (s\<lparr>bookings_rows :=
                                map (\<lambda>r. if hit r then update_row data r else r) (bookings_rows s)\<rparr>))
                   else (Inl IntegrityError, access (Update ''bookings'') s)))"

definition driver_delete_booking_by_id :: "int \<Rightarrow> store \<Rightarrow> (exn + nat) \<times> store" where
  "driver_delete_booking_by_id id_value s =
     (case faults s (Delete ''bookings'') of
        Some e \<Rightarrow> (Inl e, access (Delete ''bookings'') s)
      | None \<Rightarrow>
          (Inr (length (filter (\<lambda>r. d_id r = Some (Some id_value)) (bookings_rows s))),
           access (Delete ''bookings'')
             (s\<lparr>bookings_rows := filter (\<lambda>r. d_id r \<noteq> Some (Some id_value)) (bookings_rows s)\<rparr>)))"

section \<open>backend.py\<close>

text \<open>
  Every function of the backend runs its body in \<open>try\<close> and, on any exception, prints a
  message and returns its failure value; the printed text is not part of the model.
\<close>

definition table_dict_nonempty :: "RestaurantTable_dict \<Rightarrow> bool" where
  "table_dict_nonempty data =
     (td_id data \<noteq> None \<or> td_table_number data \<noteq> None \<or> td_capacity data \<noteq> None \<or>
      td_table_type data \<noteq> None \<or> td_status data \<noteq> None \<or> td_location data \<noteq> None \<or>
      td_description data \<noteq> None \<or> td_is_active data \<noteq> None \<or>
      td_created_at data \<noteq> None \<or> td_updated_at data \<noteq> None)"

definition read_table :: "int \<Rightarrow> store \<Rightarrow> RestaurantTable option \<times> store" where
  "read_table table_id' s =
     (case driver_read_table_by_id table_id' s of
        (Inl e, s') \<Rightarrow> (None, s')
      | (Inr None, s') \<Rightarrow> (None, s')
      | (Inr (Some data), s') \<Rightarrow>
          (if table_dict_nonempty data then Some (table_from_dict data) else None, s'))"

definition read_bookings :: "Booking_dict \<Rightarrow> store \<Rightarrow> Booking list \<times> store" where
  "read_bookings where' s =
     (case driver_read_bookings where' s of
        (Inl e, s') \<Rightarrow> ([], s')
      | (Inr data_list, s') \<Rightarrow> (map from_dict data_list, s'))"

text \<open>
  \<open>update_booking\<close> writes the dictionary of the booking, with \<open>updated_at\<close> set to
  \<open>datetime.now()\<close> (the argument \<open>now\<close>), to the row of the given id.
\<close>

definition update_booking :: "int \<Rightarrow> Booking \<Rightarrow> datetime \<Rightarrow> store \<Rightarrow> bool \<times> store" where
  "update_booking booking_id booking now s =
     (case to_dict booking of
        Inl e \<Rightarrow> (False, s)
      | Inr booking_data \<Rightarrow>
          (case driver_update_booking_by_id booking_id
                  (booking_data\<lparr>d_updated_at := Some (Some now)\<rparr>) s of
             (Inl e, s') \<Rightarrow> (False, s')
           | (Inr rows_affected, s') \<Rightarrow> (rows_affected > 0, s')))"

definition delete_booking :: "int \<Rightarrow> store \<Rightarrow> bool \<times> store" where
  "delete_booking booking_id s =
     (case driver_delete_booking_by_id booking_id s of
        (Inl e, s') \<Rightarrow> (False, s')
      | (Inr rows_affected, s') \<Rightarrow> (rows_affected > 0, s'))"

subsection \<open>check_table_availability\<close>

record availability =
  available :: bool
  table_exists :: bool
  table_active :: bool
  conflicting_booking :: "Booking option"

text \<open>
  The filter of the list comprehension:
  \<open>b.status in ['pending', 'confirmed'] and (exclude_booking_id is None or b.id != exclude_booking_id)\<close>.
\<close>

definition is_active_booking :: "int option \<Rightarrow> Booking \<Rightarrow> bool" where
  "is_active_booking exclude_booking_id b =
     (status b \<in> set [''pending'', ''confirmed''] \<and>
      (exclude_booking_id = None \<or> bid b \<noteq> exclude_booking_id))"

text \<open>
  The test of the loop: \<open>not (new_end <= existing_start or new_start >= existing_end)\<close>.
\<close>

definition overlaps :: "datetime \<Rightarrow> datetime \<Rightarrow> datetime \<Rightarrow> datetime \<Rightarrow> bool" where
  "overlaps new_start new_end existing_start existing_end =
     (\<not> (datetime_le new_end existing_start \<or> datetime_le existing_end new_start))"

text \<open>
  The start and the end of an existing booking, as the loop body computes them, both on
  \<open>booking_date\<close>. A booking with no end time ends two hours after its start, of which the
  loop keeps the time of day.
\<close>

definition existing_interval :: "date option \<Rightarrow> Booking \<Rightarrow> exn + datetime \<times> datetime" where
  "existing_interval booking_date' existing_booking =
     (let existing_time_start = map_option time_part (booking_time existing_booking)
      in bind_exn
           (case booking_end_time existing_booking of
              Some e \<Rightarrow> Inr (Some (time_part e))
            | None \<Rightarrow>
                bind_exn (combine booking_date' existing_time_start) (\<lambda>existing_start_dt.
                bind_exn (add_2_hours existing_start_dt) (\<lambda>end_dt.
                Inr (Some (dt_time end_dt)))))
           (\<lambda>existing_time_end.
              bind_exn (combine booking_date' existing_time_start) (\<lambda>existing_start.
              bind_exn (combine booking_date' existing_time_end) (\<lambda>existing_end.
              Inr (existing_start, existing_end)))))"

fun find_conflict ::
  "date option \<Rightarrow> datetime \<Rightarrow> datetime \<Rightarrow> Booking list \<Rightarrow> exn + Booking option" where
  "find_conflict booking_date' new_start new_end [] = Inr None"
| "find_conflict booking_date' new_start new_end (existing_booking # rest) =
     (case existing_interval booking_date' existing_booking of
        Inl e \<Rightarrow> Inl e
      | Inr (existing_start, existing_end) \<Rightarrow>
          if overlaps new_start new_end existing_start existing_end
          then Inr (Some existing_booking)
          else find_conflict booking_date' new_start new_end rest)"

text \<open>
  The dictionary \<open>{'table_id': table_id, 'booking_date': booking_date}\<close> the check reads
  the bookings with.
\<close>

definition where_conditions :: "int \<Rightarrow> date option \<Rightarrow> Booking_dict" where
  "where_conditions table_id' booking_date' =
     empty_dict\<lparr> d_table_id := Some table_id',
                 d_booking_date := Some (map_option D_date booking_date') \<rparr>"

definition check_table_availability ::
  "int \<Rightarrow> date option \<Rightarrow> time option \<Rightarrow> time option \<Rightarrow> store \<Rightarrow> int option
     \<Rightarrow> availability \<times> store" where
  "check_table_availability table_id' booking_date' booking_time' booking_end_time' s
       exclude_booking_id =
     (let result = \<lparr> available = False, table_exists = False, table_active = False,
                      conflicting_booking = None \<rparr>
      in case read_table table_id' s of
           (None, s1) \<Rightarrow> (result, s1)
         | (Some table, s1) \<Rightarrow>
             (let result = result\<lparr>table_exists := True\<rparr>
              in if \<not> is_active table then (result, s1)
                 else
                   (let result = result\<lparr>table_active := True\<rparr>
                    in case read_bookings (where_conditions table_id' booking_date') s1 of
                         (bookings, s2) \<Rightarrow>
                           (let active_bookings =
                                  filter (is_active_booking exclude_booking_id) bookings
                            in case bind_exn (combine booking_date' booking_time') (\<lambda>new_start.
                                    bind_exn (combine booking_date' booking_end_time') (\<lambda>new_end.
                                    find_conflict booking_date' new_start new_end active_bookings)) of
                                 Inl e \<Rightarrow> (result, s2)
                               | Inr (Some existing_booking) \<Rightarrow>
                                   (result\<lparr>conflicting_booking := Some existing_booking\<rparr>, s2)
                               | Inr None \<Rightarrow> (result\<lparr>available := True\<rparr>, s2)))))"

text \<open>The list the loop of \<open>check_table_availability\<close> runs over.\<close>

definition active_bookings :: "int \<Rightarrow> date option \<Rightarrow> int option \<Rightarrow> store \<Rightarrow> Booking list" where
  "active_bookings table_id' booking_date' exclude_booking_id s =
     filter (is_active_booking exclude_booking_id)
       (fst (read_bookings (where_conditions table_id' booking_date') s))"

subsection \<open>create_booking\<close>

text \<open>
  \<open>if not booking.booking_end_time\<close> holds for \<open>None\<close> only: a \<open>time\<close> and a \<open>datetime\<close>
  are always true in a condition.
\<close>

definition create_booking :: "Booking \<Rightarrow> store \<Rightarrow> int option \<times> store" where
  "create_booking booking s =
     (case booking_end_time booking of
        None \<Rightarrow> (None, s)
      | Some end_value \<Rightarrow>
          (let booking_date' = map_option date_part (booking_date booking);
               booking_time_start = map_option time_part (booking_time booking);
               booking_time_end = Some (time_part end_value)
           in case check_table_availability (table_id booking) booking_date' booking_time_start
                     booking_time_end s None of
                (availability_result, s1) \<Rightarrow>
                  if \<not> available availability_result then (None, s1)
                  else
                    (case to_dict booking of
                       Inl e \<Rightarrow> (None, s1)
                     | Inr booking_data \<Rightarrow>
                         (case driver_create_booking booking_data s1 of
                            (Inl e, s2) \<Rightarrow> (None, s2)
                          | (Inr booking_id, s2) \<Rightarrow> (booking_id, s2)))))"

section \<open>Example data\<close>

text \<open>
  A table row, a booking row, a booking object and a store with one user, no faults and
  an empty log, for the concrete checks below; \<open>store_down\<close> makes every statement raise
  ConnectionError, \<open>bookings_unreadable\<close> only the reads of \<open>bookings\<close>. Day 739000 is an ordinary date, and
  \<open>mk_time h m\<close> is the time \<open>h:m\<close>.
\<close>

definition example_table :: "int \<Rightarrow> bool \<Rightarrow> RestaurantTable_dict" where
  "example_table i act =
     \<lparr> td_id = Some (Some i), td_table_number = Some ''T'', td_capacity = Some 4,
       td_table_type = Some ''standard'', td_status = Some ''available'',
       td_location = Some None, td_description = Some None, td_is_active = Some act,
       td_created_at = Some None, td_updated_at = Some None \<rparr>"

definition example_row ::
  "int \<Rightarrow> int \<Rightarrow> date \<Rightarrow> time \<Rightarrow> time option \<Rightarrow> string \<Rightarrow> Booking_dict" where
  "example_row i t d st en stat =
     \<lparr> d_id = Some (Some i), d_user_id = Some 1, d_table_id = Some t,
       d_booking_date = Some (Some (D_date d)), d_booking_time = Some (Some (T_time st)),
       d_booking_end_time = Some (map_option T_time en), d_number_of_guests = Some 2,
       d_status = Some stat, d_notes = Some None, d_created_at = Some None,
       d_updated_at = Some None \<rparr>"

definition example_booking :: "int \<Rightarrow> date \<Rightarrow> time \<Rightarrow> time \<Rightarrow> int \<Rightarrow> Booking" where
  "example_booking t d st en guests =
     \<lparr> bid = None, user_id = 1, table_id = t, booking_date = Some (D_date d),
       booking_time = Some (T_time st), booking_end_time = Some (T_time en),
       number_of_guests = guests, status = ''confirmed'', booking_notes = None,
       created_at = None, updated_at = None \<rparr>"

definition example_store :: "RestaurantTable_dict list \<Rightarrow> Booking_dict list \<Rightarrow> store" where
  "example_store ts bs =
     \<lparr> users_ids = [1], tables_rows = ts, bookings_rows = bs, bookings_id_seq = 100,
       current_timestamp = DateTime 739000 0, faults = (\<lambda>op. None), log = [] \<rparr>"

definition store_down :: "store \<Rightarrow> store" where
  "store_down s = s\<lparr>faults := (\<lambda>op. Some ConnectionError)\<rparr>"

definition bookings_unreadable :: "store \<Rightarrow> store" where
  "bookings_unreadable s =
     s\<lparr>faults := (\<lambda>op. if op = Select ''bookings'' then Some ConnectionError else None)\<rparr>"

lemmas model_defs =
  check_table_availability_def read_table_def driver_read_table_by_id_def
  table_dict_nonempty_def table_from_dict_def get_opt_def get_default_def read_bookings_def
  driver_read_bookings_def where_conditions_def empty_dict_def row_matches_def eq_cond_def
  eq_cond_null_def from_dict_def is_active_booking_def combine_def bind_exn_def
  existing_interval_def overlaps_def datetime_le_def add_2_hours_def access_def

lemmas example_defs =
  example_store_def example_table_def example_row_def example_booking_def mk_time_def
  HOUR_def DAY_def MAXORDINAL_def store_down_def bookings_unreadable_def

section \<open>Reading the store\<close>

lemma access_fields [simp]:
  "users_ids (access op s) = users_ids s"
  "tables_rows (access op s) = tables_rows s"
  "bookings_rows (access op s) = bookings_rows s"
  "bookings_id_seq (access op s) = bookings_id_seq s"
  "current_timestamp (access op s) = current_timestamp s"
  "faults (access op s) = faults s"
  "log (access op s) = log s @ [op]"
  by (simp_all add: access_def)

lemma snd_read_table [simp]:
  "snd (read_table t s) = access (Select ''restaurant_tables'') s"
  by (simp add: read_table_def driver_read_table_by_id_def split: option.splits sum.splits)

lemma snd_read_bookings [simp]:
  "snd (read_bookings w s) = access (Select ''bookings'') s"
  by (simp add: read_bookings_def driver_read_bookings_def split: option.splits)

lemma fst_read_bookings:
  "fst (read_bookings w s) =
     (case faults s (Select ''bookings'') of
        Some e \<Rightarrow> []
      | None \<Rightarrow> map from_dict (filter (row_matches w) (bookings_rows s)))"
  by (simp add: read_bookings_def driver_read_bookings_def split: option.splits)

lemma find_holds: "find P xs = Some x \<Longrightarrow> P x"
  by (induction xs) (auto split: if_splits)

lemma fst_read_table:
  "fst (read_table t s) =
     (case faults s (Select ''restaurant_tables'') of
        Some e \<Rightarrow> None
      | None \<Rightarrow>
          (case find (\<lambda>r. td_id r = Some (Some t)) (tables_rows s) of
             None \<Rightarrow> None
           | Some data \<Rightarrow> Some (table_from_dict data)))"
proof -
  have "table_dict_nonempty data"
    if "find (\<lambda>r. td_id r = Some (Some t)) (tables_rows s) = Some data" for data
    using find_holds [OF that] by (simp add: table_dict_nonempty_def)
  then show ?thesis
    by (simp add: read_table_def driver_read_table_by_id_def split: option.splits)
qed

lemma fst_read_bookings_access [simp]:
  "fst (read_bookings w (access op s)) = fst (read_bookings w s)"
  by (simp add: fst_read_bookings split: option.splits)

lemma active_bookings_access [simp]:
  "active_bookings t d ex (access op s) = active_bookings t d ex s"
  by (simp add: active_bookings_def)

lemma check_result:
  "fst (check_table_availability t d st en s ex) =
     (case fst (read_table t s) of
        None \<Rightarrow> \<lparr>available = False, table_exists = False, table_active = False,
                  conflicting_booking = None\<rparr>
      | Some table \<Rightarrow>
          if \<not> is_active table
          then \<lparr>available = False, table_exists = True, table_active = False,
                 conflicting_booking = None\<rparr>
          else
            (case bind_exn (combine d st) (\<lambda>new_start.
                  bind_exn (combine d en) (\<lambda>new_end.
                  find_conflict d new_start new_end (active_bookings t d ex s))) of
               Inl e \<Rightarrow> \<lparr>available = False, table_exists = True, table_active = True,
                          conflicting_booking = None\<rparr>
             | Inr (Some b) \<Rightarrow> \<lparr>available = False, table_exists = True, table_active = True,
                                conflicting_booking = Some b\<rparr>
             | Inr None \<Rightarrow> \<lparr>available = True, table_exists = True, table_active = True,
                             conflicting_booking = None\<rparr>))"
proof -
  obtain tb s1 where rt: "read_table t s = (tb, s1)"
    by (cases "read_table t s")
  then have s1: "s1 = access (Select ''restaurant_tables'') s"
    using snd_read_table [of t s] by simp
  obtain bs s2 where rb: "read_bookings (where_conditions t d) s1 = (bs, s2)"
    by (cases "read_bookings (where_conditions t d) s1")
  then have bs: "filter (is_active_booking ex) bs = active_bookings t d ex s"
    using s1 fst_read_bookings_access [of "where_conditions t d" "Select ''restaurant_tables''" s]
    by (simp add: active_bookings_def)
  show ?thesis
    using rt rb bs
    by (simp add: check_table_availability_def Let_def split: option.splits sum.splits)
qed

section \<open>The overlap test\<close>

text \<open>
  C8. The overlap predicate is symmetric: for any two intervals A and B (on the same
  resource and date or not), the test applied to A against B gives the same answer as the
  test applied to B against A.
\<close>

theorem overlaps_symmetric:
  "overlaps a_start a_end b_start b_end = overlaps b_start b_end a_start a_end"
  by (auto simp: overlaps_def)

theorem overlaps_symmetric_witness:
  "overlaps (DateTime 739000 (mk_time 19 0)) (DateTime 739000 (mk_time 21 0))
            (DateTime 739000 (mk_time 20 0)) (DateTime 739000 (mk_time 20 30)) \<and>
   overlaps (DateTime 739000 (mk_time 20 0)) (DateTime 739000 (mk_time 20 30))
            (DateTime 739000 (mk_time 19 0)) (DateTime 739000 (mk_time 21 0))"
  using overlaps_symmetric [of "DateTime 739000 (mk_time 19 0)" "DateTime 739000 (mk_time 21 0)"
      "DateTime 739000 (mk_time 20 0)" "DateTime 739000 (mk_time 20 30)"]
  by (simp add: overlaps_def datetime_le_def mk_time_def HOUR_def)

section \<open>The availability result\<close>

text \<open>
  C9. The result of \<open>check_table_availability\<close> is coherent for every input and every
  store, faulty or not: when \<open>available\<close> is true, \<open>table_exists\<close> and \<open>table_active\<close> are
  true and there is no conflicting booking; when there is a conflicting booking,
  \<open>table_exists\<close> and \<open>table_active\<close> are true and \<open>available\<close> is false.
\<close>

theorem availability_coherent:
  "(available (fst (check_table_availability t d st en s ex)) \<longrightarrow>
      table_exists (fst (check_table_availability t d st en s ex)) \<and>
      table_active (fst (check_table_availability t d st en s ex)) \<and>
      conflicting_booking (fst (check_table_availability t d st en s ex)) = None) \<and>
   (conflicting_booking (fst (check_table_availability t d st en s ex)) \<noteq> None \<longrightarrow>
      table_exists (fst (check_table_availability t d st en s ex)) \<and>
      table_active (fst (check_table_availability t d st en s ex)) \<and>
      \<not> available (fst (check_table_availability t d st en s ex)))"
  by (simp add: check_table_availability_def Let_def split: prod.splits option.splits sum.splits)

theorem availability_coherent_witness:
  "available (fst (check_table_availability 1 (Some 739000) (Some (mk_time 21 0)) (Some (mk_time 22 0))
      (example_store [example_table 1 True]
         [example_row 1 1 739000 (mk_time 19 0) (Some (mk_time 21 0)) ''confirmed'']) None)) \<and>
   table_exists (fst (check_table_availability 1 (Some 739000) (Some (mk_time 21 0)) (Some (mk_time 22 0))
      (example_store [example_table 1 True]
         [example_row 1 1 739000 (mk_time 19 0) (Some (mk_time 21 0)) ''confirmed'']) None)) \<and>
   conflicting_booking (fst (check_table_availability 1 (Some 739000) (Some (mk_time 20 0)) (Some (mk_time 20 30))
      (example_store [example_table 1 True]
         [example_row 1 1 739000 (mk_time 19 0) (Some (mk_time 21 0)) ''confirmed'']) None)) \<noteq> None \<and>
   \<not> available (fst (check_table_availability 1 (Some 739000) (Some (mk_time 20 0)) (Some (mk_time 20 30))
      (example_store [example_table 1 True]
         [example_row 1 1 739000 (mk_time 19 0) (Some (mk_time 21 0)) ''confirmed'']) None))"
  using availability_coherent [of 1 "Some 739000" "Some (mk_time 21 0)" "Some (mk_time 22 0)"
      "example_store [example_table 1 True]
         [example_row 1 1 739000 (mk_time 19 0) (Some (mk_time 21 0)) ''confirmed'']" None]
    availability_coherent [of 1 "Some 739000" "Some (mk_time 20 0)" "Some (mk_time 20 30)"
      "example_store [example_table 1 True]
         [example_row 1 1 739000 (mk_time 19 0) (Some (mk_time 21 0)) ''confirmed'']" None]
  by (simp add: model_defs example_defs)

section \<open>Missing and inactive tables\<close>

text \<open>
  C6. For every availability check, whatever the date and the time window: when no row of
  \<open>restaurant_tables\<close> has the given id, the result has \<open>table_exists\<close> false and
  \<open>available\<close> false; when the row of that id has \<open>is_active\<close> false, the result has
  \<open>table_active\<close> false and \<open>available\<close> false.
\<close>

theorem missing_or_inactive_table:
  "((\<forall>r \<in> set (tables_rows s). td_id r \<noteq> Some (Some t)) \<longrightarrow>
      \<not> table_exists (fst (check_table_availability t d st en s ex)) \<and>
      \<not> available (fst (check_table_availability t d st en s ex))) \<and>
   (\<forall>row. find (\<lambda>r. td_id r = Some (Some t)) (tables_rows s) = Some row \<and>
          td_is_active row = Some False \<longrightarrow>
      \<not> table_active (fst (check_table_availability t d st en s ex)) \<and>
      \<not> available (fst (check_table_availability t d st en s ex)))"
proof (intro conjI allI impI)
  assume "\<forall>r \<in> set (tables_rows s). td_id r \<noteq> Some (Some t)"
  then have "find (\<lambda>r. td_id r = Some (Some t)) (tables_rows s) = None"
    by (simp add: find_None_iff)
  then have none: "fst (read_table t s) = None"
    by (simp add: fst_read_table split: option.splits)
  show "\<not> table_exists (fst (check_table_availability t d st en s ex))"
    by (simp add: check_result none)
  show "\<not> available (fst (check_table_availability t d st en s ex))"
    by (simp add: check_result none)
next
  fix row
  assume a: "find (\<lambda>r. td_id r = Some (Some t)) (tables_rows s) = Some row \<and>
          td_is_active row = Some False"
  then have rt: "fst (read_table t s) = None \<or>
      (\<exists>tb. fst (read_table t s) = Some tb \<and> \<not> is_active tb)"
    by (auto simp: fst_read_table table_from_dict_def get_default_def split: option.splits)
  then show "\<not> table_active (fst (check_table_availability t d st en s ex))"
    by (auto simp: check_result)
  from rt show "\<not> available (fst (check_table_availability t d st en s ex))"
    by (auto simp: check_result)
qed

theorem missing_or_inactive_table_witness:
  "tables_rows (example_store [] []) = [] \<and>
   \<not> table_exists (fst (check_table_availability 1 (Some 739000) (Some (mk_time 19 0))
        (Some (mk_time 21 0)) (example_store [] []) None)) \<and>
   \<not> available (fst (check_table_availability 1 (Some 739000) (Some (mk_time 19 0))
        (Some (mk_time 21 0)) (example_store [] []) None)) \<and>
   find (\<lambda>r. td_id r = Some (Some 1)) (tables_rows (example_store [example_table 1 False] [])) =
     Some (example_table 1 False) \<and>
   td_is_active (example_table 1 False) = Some False \<and>
   table_exists (fst (check_table_availability 1 (Some 739000) (Some (mk_time 19 0))
        (Some (mk_time 21 0)) (example_store [example_table 1 False] []) None)) \<and>
   \<not> table_active (fst (check_table_availability 1 (Some 739000) (Some (mk_time 19 0))
        (Some (mk_time 21 0)) (example_store [example_table 1 False] []) None)) \<and>
   \<not> available (fst (check_table_availability 1 (Some 739000) (Some (mk_time 19 0))
        (Some (mk_time 21 0)) (example_store [example_table 1 False] []) None))"
  using missing_or_inactive_table [of "example_store [] []" 1 "Some 739000"
      "Some (mk_time 19 0)" "Some (mk_time 21 0)" None]
    missing_or_inactive_table [of "example_store [example_table 1 False] []" 1 "Some 739000"
      "Some (mk_time 19 0)" "Some (mk_time 21 0)" None]
  by (simp add: model_defs example_defs)

section \<open>The loop over the active bookings\<close>

lemma find_conflict_Some:
  "find_conflict d ns ne bs = Inr (Some b) \<Longrightarrow>
     b \<in> set bs \<and>
     (case existing_interval d b of
        Inl e \<Rightarrow> False
      | Inr (es, ee) \<Rightarrow> \<not> (datetime_le ne es \<or> datetime_le ee ns))"
  by (induction bs) (auto simp: overlaps_def split: sum.splits prod.splits if_splits)

lemma find_conflict_None:
  "find_conflict d ns ne bs = Inr None \<longleftrightarrow>
     (\<forall>b \<in> set bs.
        case existing_interval d b of
          Inl e \<Rightarrow> False
        | Inr (es, ee) \<Rightarrow> datetime_le ne es \<or> datetime_le ee ns)"
  by (induction bs) (auto simp: overlaps_def split: sum.splits prod.splits if_splits)

lemma find_conflict_defined:
  "\<forall>b \<in> set bs. \<forall>e. existing_interval d b \<noteq> Inl e \<Longrightarrow>
     \<exists>r. find_conflict d ns ne bs = Inr r"
  by (induction bs) (auto split: sum.splits prod.splits)

lemma filter_map_filter:
  "filter A (map f (filter B xs)) = map f (filter (\<lambda>r. B r \<and> A (f r)) xs)"
  by (induction xs) simp_all

lemma row_matches_where:
  "row_matches (where_conditions t (Some d)) r \<longleftrightarrow>
     d_table_id r = Some t \<and> d_booking_date r = Some (Some (D_date d))"
  by (auto simp: row_matches_def where_conditions_def empty_dict_def eq_cond_def eq_cond_null_def)

lemma active_bookings_filter:
  "active_bookings t (Some d) ex
     (s\<lparr>bookings_rows :=
          filter (\<lambda>r. d_table_id r = Some t \<and> d_booking_date r = Some (Some (D_date d)) \<and>
                       status (from_dict r) \<in> {''pending'', ''confirmed''} \<and>
                       (ex = None \<or> bid (from_dict r) \<noteq> ex))
            (bookings_rows s)\<rparr>) =
   active_bookings t (Some d) ex s"
proof -
  have eq: "(\<lambda>r. d_table_id r = Some t \<and> d_booking_date r = Some (Some (D_date d)) \<and>
                status (from_dict r) \<in> {''pending'', ''confirmed''} \<and>
                (ex = None \<or> bid (from_dict r) \<noteq> ex)) =
            (\<lambda>r. row_matches (where_conditions t (Some d)) r \<and>
                is_active_booking ex (from_dict r))"
    by (auto simp: row_matches_where is_active_booking_def)
  show ?thesis
    unfolding eq active_bookings_def fst_read_bookings
    by (simp add: filter_map_filter split: option.splits cong: conj_cong)
qed

lemma active_bookings_member:
  "b \<in> set (active_bookings t (Some d) ex s) \<Longrightarrow>
     table_id b = t \<and> booking_date b = Some (D_date d) \<and>
     status b \<in> {''pending'', ''confirmed''} \<and> (ex = None \<or> bid b \<noteq> ex)"
  by (auto simp: active_bookings_def fst_read_bookings row_matches_where is_active_booking_def
        from_dict_def get_default_def get_opt_def split: option.splits)

lemma conflicting_booking_active:
  "conflicting_booking (fst (check_table_availability t d st en s ex)) = Some b \<Longrightarrow>
     b \<in> set (active_bookings t d ex s) \<and>
     (\<exists>ns ne. combine d st = Inr ns \<and> combine d en = Inr ne \<and>
        find_conflict d ns ne (active_bookings t d ex s) = Inr (Some b))"
  by (auto simp: check_result bind_exn_def split: option.splits sum.splits if_splits
        dest: find_conflict_Some)

section \<open>Which bookings are considered\<close>

text \<open>
  C3. The availability check considers only the rows of the given table and date whose
  status is \<open>pending\<close> or \<open>confirmed\<close> and whose id differs from \<open>exclude_booking_id\<close>:
  dropping every other row from the store leaves the result unchanged, whatever the time
  window, and a booking reported as the conflict is such a row, so never a cancelled or a
  completed one.
\<close>

theorem only_active_bookings_considered:
  "fst (check_table_availability t (Some d) st en
          (s\<lparr>bookings_rows :=
               filter (\<lambda>r. d_table_id r = Some t \<and> d_booking_date r = Some (Some (D_date d)) \<and>
                            status (from_dict r) \<in> {''pending'', ''confirmed''} \<and>
                            (ex = None \<or> bid (from_dict r) \<noteq> ex))
                 (bookings_rows s)\<rparr>) ex) =
   fst (check_table_availability t (Some d) st en s ex) \<and>
   (\<forall>b. conflicting_booking (fst (check_table_availability t (Some d) st en s ex)) = Some b \<longrightarrow>
        table_id b = t \<and> booking_date b = Some (D_date d) \<and>
        status b \<in> {''pending'', ''confirmed''} \<and> status b \<noteq> ''cancelled'' \<and>
        status b \<noteq> ''completed'' \<and> (ex = None \<or> bid b \<noteq> ex))"
proof -
  have same: "fst (check_table_availability t (Some d) st en
          (s\<lparr>bookings_rows :=
               filter (\<lambda>r. d_table_id r = Some t \<and> d_booking_date r = Some (Some (D_date d)) \<and>
                            status (from_dict r) \<in> {''pending'', ''confirmed''} \<and>
                            (ex = None \<or> bid (from_dict r) \<noteq> ex))
                 (bookings_rows s)\<rparr>) ex) =
        fst (check_table_availability t (Some d) st en s ex)"
    unfolding check_result active_bookings_filter fst_read_table
    by (simp cong: option.case_cong)
  have conflict: "table_id b = t \<and> booking_date b = Some (D_date d) \<and>
        status b \<in> {''pending'', ''confirmed''} \<and> status b \<noteq> ''cancelled'' \<and>
        status b \<noteq> ''completed'' \<and> (ex = None \<or> bid b \<noteq> ex)"
    if "conflicting_booking (fst (check_table_availability t (Some d) st en s ex)) = Some b" for b
  proof -
    from that have "b \<in> set (active_bookings t (Some d) ex s)"
      by (simp add: conflicting_booking_active)
    from active_bookings_member [OF this] show ?thesis
      by auto
  qed
  show ?thesis
    using same conflict by blast
qed

theorem only_active_bookings_considered_witness:
  "available (fst (check_table_availability 1 (Some 739000) (Some (mk_time 19 0))
      (Some (mk_time 21 0))
      (example_store [example_table 1 True]
         [example_row 1 1 739000 (mk_time 19 0) (Some (mk_time 21 0)) ''cancelled'',
          example_row 2 1 739000 (mk_time 19 0) (Some (mk_time 21 0)) ''completed'']) None)) \<and>
   conflicting_booking (fst (check_table_availability 1 (Some 739000) (Some (mk_time 19 0))
      (Some (mk_time 21 0))
      (example_store [example_table 1 True]
         [example_row 1 1 739000 (mk_time 19 0) (Some (mk_time 21 0)) ''cancelled'',
          example_row 2 1 739000 (mk_time 19 0) (Some (mk_time 21 0)) ''pending'']) None)) =
     Some (from_dict (example_row 2 1 739000 (mk_time 19 0) (Some (mk_time 21 0)) ''pending'')) \<and>
   status (from_dict (example_row 2 1 739000 (mk_time 19 0) (Some (mk_time 21 0)) ''pending'')) =
     ''pending'' \<and>
   available (fst (check_table_availability 1 (Some 739000) (Some (mk_time 19 0))
      (Some (mk_time 21 0))
      (example_store [example_table 1 True]
         [example_row 1 1 739000 (mk_time 19 0) (Some (mk_time 21 0)) ''cancelled'',
          example_row 2 1 739000 (mk_time 19 0) (Some (mk_time 21 0)) ''pending'']) (Some 2)))"
  using only_active_bookings_considered [where t = 1 and d = 739000
      and st = "Some (mk_time 19 0)" and en = "Some (mk_time 21 0)" and ex = None
      and s = "example_store [example_table 1 True]
         [example_row 1 1 739000 (mk_time 19 0) (Some (mk_time 21 0)) ''cancelled'',
          example_row 2 1 739000 (mk_time 19 0) (Some (mk_time 21 0)) ''pending'']"]
  by (simp add: model_defs example_defs)

section \<open>Conflicts are overlaps\<close>

text \<open>
  C2. For a candidate interval from \<open>st\<close> to \<open>en\<close> on date \<open>d\<close> and the bookings the loop
  considers, each with the interval from \<open>es\<close> to \<open>ee\<close> the loop computes for it: the
  table is available exactly when every considered booking has
  \<open>en \<le> es \<or> st \<ge> ee\<close>; a booking reported as the conflict is a considered booking with
  \<open>\<not> (en \<le> es \<or> st \<ge> ee)\<close>; a booking that ends exactly when the candidate starts, or
  starts exactly when the candidate ends, is never reported as the conflict; and when the
  interval of every considered booking can be computed, a conflict is reported exactly when
  some considered booking has \<open>\<not> (en \<le> es \<or> st \<ge> ee)\<close>.
\<close>

theorem conflict_iff_overlap:
  "(\<forall>table. fst (read_table t s) = Some table \<and> is_active table \<longrightarrow>
      (available (fst (check_table_availability t (Some d) (Some st) (Some en) s ex)) \<longleftrightarrow>
         (\<forall>b \<in> set (active_bookings t (Some d) ex s).
            case existing_interval (Some d) b of
              Inl e \<Rightarrow> False
            | Inr (es, ee) \<Rightarrow> datetime_le (DateTime d en) es \<or> datetime_le ee (DateTime d st)))) \<and>
   (\<forall>b. conflicting_booking (fst (check_table_availability t (Some d) (Some st) (Some en) s ex))
          = Some b \<longrightarrow>
        b \<in> set (active_bookings t (Some d) ex s) \<and>
        (case existing_interval (Some d) b of
           Inl e \<Rightarrow> False
         | Inr (es, ee) \<Rightarrow>
             \<not> (datetime_le (DateTime d en) es \<or> datetime_le ee (DateTime d st)))) \<and>
   (\<forall>b es ee. existing_interval (Some d) b = Inr (es, ee) \<and>
        (ee = DateTime d st \<or> es = DateTime d en) \<longrightarrow>
        conflicting_booking (fst (check_table_availability t (Some d) (Some st) (Some en) s ex))
          \<noteq> Some b) \<and>
   (\<forall>table. fst (read_table t s) = Some table \<and> is_active table \<and>
        (\<forall>b \<in> set (active_bookings t (Some d) ex s). \<forall>e. existing_interval (Some d) b \<noteq> Inl e) \<longrightarrow>
      (conflicting_booking (fst (check_table_availability t (Some d) (Some st) (Some en) s ex))
         \<noteq> None \<longleftrightarrow>
       (\<exists>b \<in> set (active_bookings t (Some d) ex s).
          case existing_interval (Some d) b of
            Inl e \<Rightarrow> False
          | Inr (es, ee) \<Rightarrow>
              \<not> (datetime_le (DateTime d en) es \<or> datetime_le ee (DateTime d st)))))"
proof -
  let ?r = "fst (check_table_availability t (Some d) (Some st) (Some en) s ex)"
  let ?bs = "active_bookings t (Some d) ex s"
  have avail: "available ?r \<longleftrightarrow>
         (\<forall>b \<in> set ?bs.
            case existing_interval (Some d) b of
              Inl e \<Rightarrow> False
            | Inr (es, ee) \<Rightarrow> datetime_le (DateTime d en) es \<or> datetime_le ee (DateTime d st))"
    if "fst (read_table t s) = Some table \<and> is_active table" for table
  proof -
    have "available ?r \<longleftrightarrow> find_conflict (Some d) (DateTime d st) (DateTime d en) ?bs = Inr None"
      using that by (simp add: check_result combine_def bind_exn_def split: sum.splits option.splits)
    then show ?thesis
      by (simp add: find_conflict_None)
  qed
  have conflict: "b \<in> set ?bs \<and>
        (case existing_interval (Some d) b of
           Inl e \<Rightarrow> False
         | Inr (es, ee) \<Rightarrow>
             \<not> (datetime_le (DateTime d en) es \<or> datetime_le ee (DateTime d st)))"
    if "conflicting_booking ?r = Some b" for b
  proof -
    from conflicting_booking_active [OF that]
    have "find_conflict (Some d) (DateTime d st) (DateTime d en) ?bs = Inr (Some b)"
      by (auto simp: combine_def)
    then show ?thesis
      by (rule find_conflict_Some)
  qed
  have adjacent: "conflicting_booking ?r \<noteq> Some b"
    if "existing_interval (Some d) b = Inr (es, ee) \<and> (ee = DateTime d st \<or> es = DateTime d en)"
    for b es ee
  proof
    assume "conflicting_booking ?r = Some b"
    from conflict [OF this] that show False
      by (auto simp: datetime_le_def)
  qed
  have reported: "conflicting_booking ?r \<noteq> None \<longleftrightarrow>
       (\<exists>b \<in> set ?bs.
          case existing_interval (Some d) b of
            Inl e \<Rightarrow> False
          | Inr (es, ee) \<Rightarrow>
              \<not> (datetime_le (DateTime d en) es \<or> datetime_le ee (DateTime d st)))"
    if ok: "fst (read_table t s) = Some table \<and> is_active table \<and>
        (\<forall>b \<in> set ?bs. \<forall>e. existing_interval (Some d) b \<noteq> Inl e)" for table
  proof -
    from ok obtain r where r: "find_conflict (Some d) (DateTime d st) (DateTime d en) ?bs = Inr r"
      using find_conflict_defined [of ?bs "Some d" "DateTime d st" "DateTime d en"] by blast
    have "conflicting_booking ?r \<noteq> None \<longleftrightarrow> \<not> available ?r"
      using ok r by (simp add: check_result combine_def bind_exn_def split: option.splits)
    also have "\<dots> \<longleftrightarrow> \<not> (\<forall>b \<in> set ?bs.
            case existing_interval (Some d) b of
              Inl e \<Rightarrow> False
            | Inr (es, ee) \<Rightarrow> datetime_le (DateTime d en) es \<or> datetime_le ee (DateTime d st))"
      using avail [of table] ok by simp
    also have "\<dots> \<longleftrightarrow> (\<exists>b \<in> set ?bs.
          case existing_interval (Some d) b of
            Inl e \<Rightarrow> False
          | Inr (es, ee) \<Rightarrow>
              \<not> (datetime_le (DateTime d en) es \<or> datetime_le ee (DateTime d st)))"
      using ok by (auto split: sum.splits)
    finally show ?thesis .
  qed
  show ?thesis
    using avail conflict adjacent reported by blast
qed

theorem conflict_iff_overlap_witness:
  "fst (read_table 1 (example_store [example_table 1 True]
         [example_row 1 1 739000 (mk_time 19 0) (Some (mk_time 21 0)) ''confirmed''])) =
     Some (table_from_dict (example_table 1 True)) \<and>
   is_active (table_from_dict (example_table 1 True)) \<and>
   existing_interval (Some 739000)
       (from_dict (example_row 1 1 739000 (mk_time 19 0) (Some (mk_time 21 0)) ''confirmed'')) =
     Inr (DateTime 739000 (mk_time 19 0), DateTime 739000 (mk_time 21 0)) \<and>
   available (fst (check_table_availability 1 (Some 739000) (Some (mk_time 21 0))
      (Some (mk_time 22 0))
      (example_store [example_table 1 True]
         [example_row 1 1 739000 (mk_time 19 0) (Some (mk_time 21 0)) ''confirmed'']) None)) \<and>
   available (fst (check_table_availability 1 (Some 739000) (Some (mk_time 17 0))
      (Some (mk_time 19 0))
      (example_store [example_table 1 True]
         [example_row 1 1 739000 (mk_time 19 0) (Some (mk_time 21 0)) ''confirmed'']) None)) \<and>
   conflicting_booking (fst (check_table_availability 1 (Some 739000) (Some (mk_time 20 0))
      (Some (mk_time 20 30))
      (example_store [example_table 1 True]
         [example_row 1 1 739000 (mk_time 19 0) (Some (mk_time 21 0)) ''confirmed'']) None)) =
     Some (from_dict (example_row 1 1 739000 (mk_time 19 0) (Some (mk_time 21 0)) ''confirmed'')) \<and>
   conflicting_booking (fst (check_table_availability 1 (Some 739000) (Some (mk_time 18 30))
      (Some (mk_time 20 30))
      (example_store [example_table 1 True]
         [example_row 1 1 739000 (mk_time 19 0) (Some (mk_time 21 0)) ''confirmed'']) None)) =
     Some (from_dict (example_row 1 1 739000 (mk_time 19 0) (Some (mk_time 21 0)) ''confirmed''))"
  using conflict_iff_overlap [where t = 1 and d = 739000 and st = "mk_time 21 0"
      and en = "mk_time 22 0" and ex = None
      and s = "example_store [example_table 1 True]
         [example_row 1 1 739000 (mk_time 19 0) (Some (mk_time 21 0)) ''confirmed'']"]
    conflict_iff_overlap [where t = 1 and d = 739000 and st = "mk_time 20 0"
      and en = "mk_time 20 30" and ex = None
      and s = "example_store [example_table 1 True]
         [example_row 1 1 739000 (mk_time 19 0) (Some (mk_time 21 0)) ''confirmed'']"]
  by (simp add: model_defs example_defs)

section \<open>The interval of an existing booking\<close>

text \<open>
  The interval the loop computes for a booking with a start time: up to the stored end
  time when there is one; otherwise up to the start plus two hours when that is still the
  same day, and up to the time of day of the start plus two hours, put back on the same
  date, when it is not.
\<close>

lemma existing_interval_cases:
  "booking_time b = Some bt \<Longrightarrow>
   existing_interval (Some d) b =
     (case booking_end_time b of
        Some e \<Rightarrow> Inr (DateTime d (time_part bt), DateTime d (time_part e))
      | None \<Rightarrow>
          if time_part bt + 2 * HOUR < DAY
          then Inr (DateTime d (time_part bt), DateTime d (time_part bt + 2 * HOUR))
          else if d + 1 > MAXORDINAL then Inl OverflowError
          else Inr (DateTime d (time_part bt), DateTime d (time_part bt + 2 * HOUR - DAY)))"
  by (simp add: existing_interval_def combine_def bind_exn_def add_2_hours_def
        split: option.splits)

text \<open>
  C7. The interval of a considered booking ends at its stored end time when one is present,
  and at its start time plus exactly two hours when it is absent. The code does so for a
  start before 22:00 only: a booking at 23:00 with no end time is given the interval from
  23:00 to 01:00 of the same date, which nothing overlaps, so that a request for 23:30 to
  23:45 is admitted; with a stored end time of 23:59 the same request is refused.
\<close>

theorem legacy_end_wraps_past_midnight:
  "existing_interval (Some 739000)
       (from_dict (example_row 1 1 739000 (mk_time 23 0) None ''confirmed'')) =
     Inr (DateTime 739000 (mk_time 23 0), DateTime 739000 (mk_time 1 0)) \<and>
   available (fst (check_table_availability 1 (Some 739000) (Some (mk_time 23 30))
      (Some (mk_time 23 45))
      (example_store [example_table 1 True]
         [example_row 1 1 739000 (mk_time 23 0) None ''confirmed'']) None)) \<and>
   conflicting_booking (fst (check_table_availability 1 (Some 739000) (Some (mk_time 23 30))
      (Some (mk_time 23 45))
      (example_store [example_table 1 True]
         [example_row 1 1 739000 (mk_time 23 0) (Some (mk_time 23 59)) ''confirmed'']) None)) =
     Some (from_dict (example_row 1 1 739000 (mk_time 23 0) (Some (mk_time 23 59)) ''confirmed''))"
  by (simp add: model_defs example_defs)

section \<open>The lifecycle operations\<close>

lemmas write_defs =
  update_booking_def create_booking_def delete_booking_def to_dict_def
  driver_update_booking_by_id_def driver_create_booking_def driver_delete_booking_by_id_def
  bookings_constraints_def with_defaults_def update_row_def set_key_def

lemma snd_check_cases:
  "snd (check_table_availability t d st en s ex) = access (Select ''restaurant_tables'') s \<or>
   snd (check_table_availability t d st en s ex) =
     access (Select ''bookings'') (access (Select ''restaurant_tables'') s)"
proof -
  obtain tb s1 where rt: "read_table t s = (tb, s1)"
    by (cases "read_table t s")
  then have s1: "s1 = access (Select ''restaurant_tables'') s"
    using snd_read_table [of t s] by simp
  obtain bs s2 where rb: "read_bookings (where_conditions t d) s1 = (bs, s2)"
    by (cases "read_bookings (where_conditions t d) s1")
  then have s2: "s2 = access (Select ''bookings'') s1"
    using snd_read_bookings [of "where_conditions t d" s1] by simp
  show ?thesis
    using rt rb s1 s2
    by (simp add: check_table_availability_def Let_def split: option.splits sum.splits)
qed

lemma check_preserves [simp]:
  "bookings_rows (snd (check_table_availability t d st en s ex)) = bookings_rows s"
  "tables_rows (snd (check_table_availability t d st en s ex)) = tables_rows s"
  "users_ids (snd (check_table_availability t d st en s ex)) = users_ids s"
  "faults (snd (check_table_availability t d st en s ex)) = faults s"
  using snd_check_cases [of t d st en s ex] by auto

lemma to_dict_fields:
  "to_dict b = Inr data \<Longrightarrow>
     d_number_of_guests data = Some (number_of_guests b) \<and>
     d_booking_time data = Some (map_option (\<lambda>v. T_time (time_part v)) (booking_time b)) \<and>
     d_id data = None \<and> d_user_id data = Some (user_id b) \<and>
     (\<forall>e. booking_end_time b = Some e \<longrightarrow>
          d_booking_end_time data = Some (Some (T_time (time_part e))))"
  by (auto simp: to_dict_def empty_dict_def bind_exn_def combine_def Let_def
        split: option.splits sum.splits)

lemma to_dict_nonempty: "to_dict b = Inr data \<Longrightarrow> data \<noteq> empty_dict"
  using to_dict_fields [of b data] by (auto simp: empty_dict_def)

lemma to_dict_with_end: "booking_end_time b = Some e \<Longrightarrow> \<exists>data. to_dict b = Inr data"
  by (simp add: to_dict_def Let_def)

lemma malformed_insert:
  assumes "to_dict b = Inr data"
    and "(\<exists>bt et. booking_time b = Some bt \<and> booking_end_time b = Some et \<and>
            time_part et \<le> time_part bt) \<or> number_of_guests b \<le> 0"
  shows "\<not> bookings_constraints s (with_defaults s data)"
  using to_dict_fields [OF assms(1)] assms(2)
  by (auto simp: bookings_constraints_def with_defaults_def split: option.splits)

lemma malformed_update:
  assumes "to_dict b = Inr data"
    and "(\<exists>bt et. booking_time b = Some bt \<and> booking_end_time b = Some et \<and>
            time_part et \<le> time_part bt) \<or> number_of_guests b \<le> 0"
  shows "\<not> bookings_constraints s (update_row (data\<lparr>d_updated_at := x\<rparr>) r)"
  using to_dict_fields [OF assms(1)] assms(2)
  by (auto simp: bookings_constraints_def update_row_def set_key_def split: option.splits)

lemma create_rejected:
  assumes "\<not> bookings_constraints s (with_defaults s data)"
  shows "\<exists>e s'. driver_create_booking data s = (Inl e, s') \<and> bookings_rows s' = bookings_rows s"
  using assms by (auto simp: driver_create_booking_def split: option.splits)

lemma update_failed_rows:
  "driver_update_booking_by_id i data s = (Inl e, s') \<Longrightarrow> bookings_rows s' = bookings_rows s"
  by (auto simp: driver_update_booking_by_id_def Let_def split: option.splits if_splits)

lemma update_rejected:
  assumes "\<And>r. \<not> bookings_constraints s (update_row data r)"
  shows "(\<exists>e s'. driver_update_booking_by_id i data s = (Inl e, s') \<and>
            bookings_rows s' = bookings_rows s) \<or>
         (\<exists>s'. driver_update_booking_by_id i data s = (Inr 0, s') \<and>
            bookings_rows s' = bookings_rows s)"
proof (cases "data = empty_dict \<or> faults s (Update ''bookings'') \<noteq> None")
  case True
  then show ?thesis
    by (auto simp: driver_update_booking_by_id_def)
next
  case False
  show ?thesis
  proof (cases "list_ex (\<lambda>r. d_id r = Some (Some i)) (bookings_rows s)")
    case True
    then have "\<not> list_all (\<lambda>r. d_id r = Some (Some i) \<longrightarrow>
        bookings_constraints s (update_row data r)) (bookings_rows s)"
      using assms by (auto simp: list_ex_iff list_all_iff)
    then show ?thesis
      using False by (auto simp: driver_update_booking_by_id_def Let_def)
  next
    case nohit: False
    then have none: "filter (\<lambda>r. d_id r = Some (Some i)) (bookings_rows s) = []"
      by (auto simp: list_ex_iff filter_empty_conv)
    have all: "list_all (\<lambda>r. d_id r = Some (Some i) \<longrightarrow>
        bookings_constraints s (update_row data r)) (bookings_rows s)"
      using nohit by (auto simp: list_ex_iff list_all_iff)
    have same: "map (\<lambda>r. if d_id r = Some (Some i) then update_row data r else r) (bookings_rows s)
        = bookings_rows s"
      using nohit by (auto simp: list_ex_iff intro: map_idI)
    show ?thesis
      using False all none same by (auto simp: driver_update_booking_by_id_def Let_def)
  qed
qed

lemma create_booking_cases:
  "(\<exists>s'. create_booking b s = (None, s') \<and> bookings_rows s' = bookings_rows s) \<or>
   (\<exists>data s1 r s2. to_dict b = Inr data \<and> bookings_rows s1 = bookings_rows s \<and>
      faults s1 = faults s \<and> driver_create_booking data s1 = (r, s2) \<and>
      create_booking b s = (case r of Inl e \<Rightarrow> None | Inr booking_id \<Rightarrow> booking_id, s2))"
proof (cases "booking_end_time b")
  case None
  then show ?thesis
    by (simp add: create_booking_def)
next
  case (Some e)
  obtain a s1 where chk: "check_table_availability (table_id b)
         (map_option date_part (booking_date b)) (map_option time_part (booking_time b))
         (Some (time_part e)) s None = (a, s1)"
    by (cases "check_table_availability (table_id b)
         (map_option date_part (booking_date b)) (map_option time_part (booking_time b))
         (Some (time_part e)) s None")
  have rows: "bookings_rows s1 = bookings_rows s"
    using check_preserves(1) [of "table_id b" "map_option date_part (booking_date b)"
        "map_option time_part (booking_time b)" "Some (time_part e)" s None] chk
    by simp
  have faults: "faults s1 = faults s"
    using check_preserves(4) [of "table_id b" "map_option date_part (booking_date b)"
        "map_option time_part (booking_time b)" "Some (time_part e)" s None] chk
    by simp
  obtain data where data: "to_dict b = Inr data"
    using to_dict_with_end [OF Some] by blast
  obtain r s2 where ins: "driver_create_booking data s1 = (r, s2)"
    by (cases "driver_create_booking data s1")
  show ?thesis
  proof (cases "available a")
    case False
    then show ?thesis
      using Some chk rows by (simp add: create_booking_def Let_def)
  next
    case True
    then have "create_booking b s = (case r of Inl e \<Rightarrow> None | Inr booking_id \<Rightarrow> booking_id, s2)"
      using Some chk data ins by (simp add: create_booking_def Let_def split: sum.splits)
    then show ?thesis
      using data rows faults ins by blast
  qed
qed

lemma driver_create_rows:
  "driver_create_booking data s = (Inl e, s') \<Longrightarrow> bookings_rows s' = bookings_rows s"
  by (auto simp: driver_create_booking_def Let_def split: option.splits if_splits)

lemma driver_create_Some:
  "driver_create_booking data s = (Inr r, s') \<Longrightarrow> r \<noteq> None"
  by (auto simp: driver_create_booking_def Let_def bookings_constraints_def get_opt_def
        split: option.splits if_splits)

lemma create_booking_None_rows:
  assumes "fst (create_booking b s) = None"
  shows "bookings_rows (snd (create_booking b s)) = bookings_rows s"
  using create_booking_cases [of b s]
proof
  assume "\<exists>s'. create_booking b s = (None, s') \<and> bookings_rows s' = bookings_rows s"
  then show ?thesis by auto
next
  assume "\<exists>data s1 r s2. to_dict b = Inr data \<and> bookings_rows s1 = bookings_rows s \<and>
      faults s1 = faults s \<and> driver_create_booking data s1 = (r, s2) \<and>
      create_booking b s = (case r of Inl e \<Rightarrow> None | Inr booking_id \<Rightarrow> booking_id, s2)"
  then obtain data s1 r s2 where rows: "bookings_rows s1 = bookings_rows s"
    and ins: "driver_create_booking data s1 = (r, s2)"
    and cb: "create_booking b s = (case r of Inl e \<Rightarrow> None | Inr booking_id \<Rightarrow> booking_id, s2)"
    by blast
  show ?thesis
  proof (cases r)
    case (Inl e)
    with ins have "bookings_rows s2 = bookings_rows s1"
      by (simp add: driver_create_rows)
    with rows cb show ?thesis by simp
  next
    case (Inr booking_id)
    with ins have "booking_id \<noteq> None"
      by (simp add: driver_create_Some)
    with Inr cb assms show ?thesis by simp
  qed
qed

lemma update_booking_False_rows:
  "fst (update_booking i b now s) = False \<Longrightarrow>
     bookings_rows (snd (update_booking i b now s)) = bookings_rows s"
proof (cases "to_dict b")
  case (Inl e)
  then show ?thesis by (simp add: update_booking_def)
next
  case (Inr data)
  assume f: "fst (update_booking i b now s) = False"
  obtain r s' where u: "driver_update_booking_by_id i (data\<lparr>d_updated_at := Some (Some now)\<rparr>) s
      = (r, s')"
    by (cases "driver_update_booking_by_id i (data\<lparr>d_updated_at := Some (Some now)\<rparr>) s")
  show ?thesis
  proof (cases r)
    case (Inl e)
    then show ?thesis
      using Inr u update_failed_rows [of i _ s e s'] by (simp add: update_booking_def)
  next
    case (Inr n)
    with f u \<open>to_dict b = Inr data\<close> have n: "n = 0"
      by (simp add: update_booking_def)
    from u Inr n have "filter (\<lambda>r. d_id r = Some (Some i)) (bookings_rows s) = [] \<and>
        bookings_rows s' =
          map (\<lambda>r. if d_id r = Some (Some i)
                    then update_row (data\<lparr>d_updated_at := Some (Some now)\<rparr>) r else r)
            (bookings_rows s)"
      by (auto simp: driver_update_booking_by_id_def Let_def split: option.splits if_splits)
    then have "bookings_rows s' = bookings_rows s"
      by (auto simp: filter_empty_conv intro: map_idI)
    then show ?thesis
      using u Inr \<open>to_dict b = Inr data\<close> by (simp add: update_booking_def)
  qed
qed

lemma check_log:
  "length (log s) < length (log (snd (check_table_availability t d st en s ex)))"
  using snd_check_cases [of t d st en s ex] by auto

lemma driver_create_log:
  "driver_create_booking data s = (r, s') \<Longrightarrow> length (log s) \<le> length (log s')"
  by (auto simp: driver_create_booking_def Let_def split: option.splits if_splits)

lemma create_booking_log:
  assumes "booking_end_time b = Some e"
  shows "length (log s) < length (log (snd (create_booking b s)))"
proof -
  obtain a s1 where chk: "check_table_availability (table_id b)
         (map_option date_part (booking_date b)) (map_option time_part (booking_time b))
         (Some (time_part e)) s None = (a, s1)"
    by (cases "check_table_availability (table_id b)
         (map_option date_part (booking_date b)) (map_option time_part (booking_time b))
         (Some (time_part e)) s None")
  have l1: "length (log s) < length (log s1)"
    using check_log [of s "table_id b" "map_option date_part (booking_date b)"
        "map_option time_part (booking_time b)" "Some (time_part e)" None] chk
    by simp
  obtain data where data: "to_dict b = Inr data"
    using to_dict_with_end [OF assms] by blast
  obtain r s2 where ins: "driver_create_booking data s1 = (r, s2)"
    by (cases "driver_create_booking data s1")
  have l2: "length (log s1) \<le> length (log s2)"
    using ins by (rule driver_create_log)
  show ?thesis
  proof (cases "available a")
    case False
    then show ?thesis
      using assms chk l1 by (simp add: create_booking_def Let_def)
  next
    case True
    then have "snd (create_booking b s) = s2"
      using assms chk data ins by (simp add: create_booking_def Let_def split: sum.splits)
    then show ?thesis
      using l1 l2 by simp
  qed
qed

lemma update_booking_log:
  assumes "to_dict b = Inr data"
  shows "log (snd (update_booking i b now s)) = log s @ [Update ''bookings'']"
proof -
  have ne: "data\<lparr>d_updated_at := Some (Some now)\<rparr> \<noteq> empty_dict"
  proof
    assume "data\<lparr>d_updated_at := Some (Some now)\<rparr> = empty_dict"
    then have "d_updated_at (data\<lparr>d_updated_at := Some (Some now)\<rparr>) = d_updated_at empty_dict"
      by simp
    then show False
      by (simp add: empty_dict_def)
  qed
  show ?thesis
    using assms ne
    by (auto simp: update_booking_def driver_update_booking_by_id_def Let_def
          split: option.splits)
qed

lemma to_dict_fills_end:
  assumes "booking_end_time b = None" and "booking_date b = Some bd"
    and "booking_time b = Some bt" and "time_part bt + 2 * HOUR < DAY"
  shows "to_dict (b\<lparr>booking_end_time := Some (T_time (time_part bt + 2 * HOUR))\<rparr>) = to_dict b"
  using assms by (simp add: to_dict_def Let_def combine_def bind_exn_def add_2_hours_def)

section \<open>Malformed input\<close>

text \<open>
  C4, as amended. A booking whose end time is present and not strictly after its start
  time, or whose guest count is not positive, is rejected by creation (\<open>None\<close>) and by
  update (\<open>False\<close>), and the stored rows stay as they were, so that nothing is written in
  a corrected form. The rejection does not come before the store is touched: whenever an
  end time is present, \<open>create_booking\<close> has sent the store at least one statement and
  \<open>update_booking\<close> has sent its update. An absent end time is treated apart:
  \<open>create_booking\<close> refuses it before the store is touched, and \<open>update_booking\<close> does not
  refuse it: for a booking with a date and a start before 22:00 it does exactly what it
  does for the same booking with the start plus two hours as its end.
\<close>

theorem malformed_input_rejected_by_store:
  "((\<exists>bt et. booking_time b = Some bt \<and> booking_end_time b = Some et \<and>
        time_part et \<le> time_part bt) \<or> number_of_guests b \<le> 0 \<longrightarrow>
      fst (create_booking b s) = None \<and>
      bookings_rows (snd (create_booking b s)) = bookings_rows s \<and>
      fst (update_booking i b now s) = False \<and>
      bookings_rows (snd (update_booking i b now s)) = bookings_rows s) \<and>
   (booking_end_time b \<noteq> None \<longrightarrow>
      length (log s) < length (log (snd (create_booking b s))) \<and>
      log (snd (update_booking i b now s)) = log s @ [Update ''bookings'']) \<and>
   (booking_end_time b = None \<longrightarrow> create_booking b s = (None, s)) \<and>
   (\<forall>bd bt. booking_end_time b = None \<and> booking_date b = Some bd \<and>
        booking_time b = Some bt \<and> time_part bt + 2 * HOUR < DAY \<longrightarrow>
      update_booking i b now s =
        update_booking i (b\<lparr>booking_end_time := Some (T_time (time_part bt + 2 * HOUR))\<rparr>)
          now s)"
proof -
  have early: "create_booking b s = (None, s)" if "booking_end_time b = None"
    using that by (simp add: create_booking_def)
  have accessed: "length (log s) < length (log (snd (create_booking b s))) \<and>
      log (snd (update_booking i b now s)) = log s @ [Update ''bookings'']"
    if "booking_end_time b \<noteq> None"
  proof -
    from that obtain e where e: "booking_end_time b = Some e"
      by auto
    from to_dict_with_end [OF e] obtain data where "to_dict b = Inr data"
      by blast
    then show ?thesis
      using create_booking_log [OF e, of s] update_booking_log [of b data i now s] by simp
  qed
  have filled: "update_booking i b now s =
        update_booking i (b\<lparr>booking_end_time := Some (T_time (time_part bt + 2 * HOUR))\<rparr>)
          now s"
    if "booking_end_time b = None \<and> booking_date b = Some bd \<and>
        booking_time b = Some bt \<and> time_part bt + 2 * HOUR < DAY" for bd bt
    using that to_dict_fills_end [of b bd bt] by (simp add: update_booking_def)
  have rejected: "fst (create_booking b s) = None \<and> fst (update_booking i b now s) = False"
    if bad: "(\<exists>bt et. booking_time b = Some bt \<and> booking_end_time b = Some et \<and>
        time_part et \<le> time_part bt) \<or> number_of_guests b \<le> 0"
  proof
    show "fst (create_booking b s) = None"
      using create_booking_cases [of b s]
    proof
      assume "\<exists>s'. create_booking b s = (None, s') \<and> bookings_rows s' = bookings_rows s"
      then show ?thesis by auto
    next
      assume "\<exists>data s1 r s2. to_dict b = Inr data \<and> bookings_rows s1 = bookings_rows s \<and>
        faults s1 = faults s \<and> driver_create_booking data s1 = (r, s2) \<and>
        create_booking b s = (case r of Inl e \<Rightarrow> None | Inr booking_id \<Rightarrow> booking_id, s2)"
      then obtain data s1 r s2 where data: "to_dict b = Inr data"
        and ins: "driver_create_booking data s1 = (r, s2)"
        and cb: "create_booking b s = (case r of Inl e \<Rightarrow> None | Inr booking_id \<Rightarrow> booking_id, s2)"
        by blast
      from create_rejected [OF malformed_insert [OF data bad], of s1] ins cb
      show ?thesis by auto
    qed
    show "fst (update_booking i b now s) = False"
    proof (cases "to_dict b")
      case (Inl e)
      then show ?thesis by (simp add: update_booking_def)
    next
      case (Inr data)
      from update_rejected [of s "data\<lparr>d_updated_at := Some (Some now)\<rparr>" i]
        malformed_update [OF Inr bad]
      show ?thesis
        using Inr by (auto simp: update_booking_def)
    qed
  qed
  have unchanged: "fst (create_booking b s) = None \<and>
      bookings_rows (snd (create_booking b s)) = bookings_rows s \<and>
      fst (update_booking i b now s) = False \<and>
      bookings_rows (snd (update_booking i b now s)) = bookings_rows s"
    if "(\<exists>bt et. booking_time b = Some bt \<and> booking_end_time b = Some et \<and>
        time_part et \<le> time_part bt) \<or> number_of_guests b \<le> 0"
    using rejected [OF that] create_booking_None_rows [of b s]
      update_booking_False_rows [of i b now s]
    by simp
  show ?thesis
    using early accessed filled unchanged by blast
qed

theorem malformed_input_rejected_by_store_witness:
  "booking_time (example_booking 1 739000 (mk_time 21 0) (mk_time 19 0) 2) =
     Some (T_time (mk_time 21 0)) \<and>
   booking_end_time (example_booking 1 739000 (mk_time 21 0) (mk_time 19 0) 2) =
     Some (T_time (mk_time 19 0)) \<and>
   time_part (T_time (mk_time 19 0)) \<le> time_part (T_time (mk_time 21 0)) \<and>
   fst (create_booking (example_booking 1 739000 (mk_time 21 0) (mk_time 19 0) 2)
          (example_store [example_table 1 True] [])) = None \<and>
   bookings_rows (snd (create_booking (example_booking 1 739000 (mk_time 21 0) (mk_time 19 0) 2)
          (example_store [example_table 1 True] []))) = [] \<and>
   fst (update_booking 1 (example_booking 1 739000 (mk_time 21 0) (mk_time 19 0) 2)
          (DateTime 739000 0) (example_store [example_table 1 True] [])) = False \<and>
   log (snd (update_booking 1 (example_booking 1 739000 (mk_time 21 0) (mk_time 19 0) 2)
          (DateTime 739000 0) (example_store [example_table 1 True] []))) =
     [Update ''bookings''] \<and>
   booking_end_time ((example_booking 1 739000 (mk_time 18 0) (mk_time 19 0) 2)
       \<lparr>booking_end_time := None\<rparr>) = None \<and>
   booking_date ((example_booking 1 739000 (mk_time 18 0) (mk_time 19 0) 2)
       \<lparr>booking_end_time := None\<rparr>) = Some (D_date 739000) \<and>
   booking_time ((example_booking 1 739000 (mk_time 18 0) (mk_time 19 0) 2)
       \<lparr>booking_end_time := None\<rparr>) = Some (T_time (mk_time 18 0)) \<and>
   time_part (T_time (mk_time 18 0)) + 2 * HOUR < DAY \<and>
   create_booking ((example_booking 1 739000 (mk_time 18 0) (mk_time 19 0) 2)
       \<lparr>booking_end_time := None\<rparr>) (example_store [example_table 1 True] []) =
     (None, example_store [example_table 1 True] []) \<and>
   fst (update_booking 1 ((example_booking 1 739000 (mk_time 18 0) (mk_time 19 0) 2)
          \<lparr>booking_end_time := None\<rparr>) (DateTime 739000 0)
          (example_store [example_table 1 True]
             [example_row 1 1 739000 (mk_time 19 0) (Some (mk_time 21 0)) ''confirmed''])) = True \<and>
   bookings_rows (snd (update_booking 1 ((example_booking 1 739000 (mk_time 18 0) (mk_time 19 0) 2)
          \<lparr>booking_end_time := None\<rparr>) (DateTime 739000 0)
          (example_store [example_table 1 True]
             [example_row 1 1 739000 (mk_time 19 0) (Some (mk_time 21 0)) ''confirmed'']))) =
     [(example_row 1 1 739000 (mk_time 18 0) (Some (mk_time 20 0)) ''confirmed'')
        \<lparr>d_updated_at := Some (Some (DateTime 739000 0))\<rparr>]"
  using malformed_input_rejected_by_store
      [where b = "example_booking 1 739000 (mk_time 21 0) (mk_time 19 0) 2"
        and s = "example_store [example_table 1 True] []" and i = 1 and now = "DateTime 739000 0"]
    malformed_input_rejected_by_store
      [where b = "(example_booking 1 739000 (mk_time 18 0) (mk_time 19 0) 2)\<lparr>booking_end_time := None\<rparr>"
        and s = "example_store [example_table 1 True] []" and i = 1 and now = "DateTime 739000 0"]
    malformed_input_rejected_by_store
      [where b = "(example_booking 1 739000 (mk_time 18 0) (mk_time 19 0) 2)\<lparr>booking_end_time := None\<rparr>"
        and s = "example_store [example_table 1 True]
             [example_row 1 1 739000 (mk_time 19 0) (Some (mk_time 21 0)) ''confirmed'']"
        and i = 1 and now = "DateTime 739000 0"]
  by (simp add: model_defs write_defs example_defs Let_def)

text \<open>
  The claim as stated fails: with an end time before the start time, \<open>create_booking\<close>
  reads both tables and sends the insert before the request is refused, and with no guests
  \<open>update_booking\<close> sends the update.
\<close>

theorem malformed_input_reaches_store:
  "fst (create_booking (example_booking 1 739000 (mk_time 21 0) (mk_time 19 0) 2)
          (example_store [example_table 1 True] [])) = None \<and>
   log (snd (create_booking (example_booking 1 739000 (mk_time 21 0) (mk_time 19 0) 2)
          (example_store [example_table 1 True] []))) =
     [Select ''restaurant_tables'', Select ''bookings'', Insert ''bookings''] \<and>
   fst (update_booking 1 (example_booking 1 739000 (mk_time 19 0) (mk_time 21 0) 0)
          (DateTime 739000 0)
          (example_store [example_table 1 True]
             [example_row 1 1 739000 (mk_time 19 0) (Some (mk_time 21 0)) ''confirmed''])) = False \<and>
   log (snd (update_booking 1 (example_booking 1 739000 (mk_time 19 0) (mk_time 21 0) 0)
          (DateTime 739000 0)
          (example_store [example_table 1 True]
             [example_row 1 1 739000 (mk_time 19 0) (Some (mk_time 21 0)) ''confirmed'']))) =
     [Update ''bookings'']"
  by (simp add: model_defs write_defs example_defs Let_def)

section \<open>Updating a booking\<close>

text \<open>
  C1. \<open>update_booking\<close> should gate the update on \<open>check_table_availability\<close> with
  \<open>exclude_booking_id\<close> set to the id of the updated booking, and reject the update when
  the table is not available. The code never calls the checker: with table 1 booked from
  19:00 to 21:00 (booking 1) and from 21:00 to 22:00 (booking 2), the checker, excluding
  booking 2, reports booking 1 as a conflict for 20:00 to 22:00, yet \<open>update_booking\<close> moves
  booking 2 to 20:00 to 22:00, returns \<open>True\<close> and has sent the store nothing but the update.
\<close>

theorem update_booking_skips_availability_check:
  "fst (check_table_availability 1 (Some 739000) (Some (mk_time 20 0)) (Some (mk_time 22 0))
          (example_store [example_table 1 True]
             [example_row 1 1 739000 (mk_time 19 0) (Some (mk_time 21 0)) ''confirmed'',
              example_row 2 1 739000 (mk_time 21 0) (Some (mk_time 22 0)) ''confirmed''])
          (Some 2)) =
     \<lparr> available = False, table_exists = True, table_active = True,
       conflicting_booking =
         Some (from_dict (example_row 1 1 739000 (mk_time 19 0) (Some (mk_time 21 0)) ''confirmed'')) \<rparr> \<and>
   fst (update_booking 2 (example_booking 1 739000 (mk_time 20 0) (mk_time 22 0) 2)
          (DateTime 739000 0)
          (example_store [example_table 1 True]
             [example_row 1 1 739000 (mk_time 19 0) (Some (mk_time 21 0)) ''confirmed'',
              example_row 2 1 739000 (mk_time 21 0) (Some (mk_time 22 0)) ''confirmed''])) = True \<and>
   bookings_rows (snd (update_booking 2 (example_booking 1 739000 (mk_time 20 0) (mk_time 22 0) 2)
          (DateTime 739000 0)
          (example_store [example_table 1 True]
             [example_row 1 1 739000 (mk_time 19 0) (Some (mk_time 21 0)) ''confirmed'',
              example_row 2 1 739000 (mk_time 21 0) (Some (mk_time 22 0)) ''confirmed'']))) =
     [example_row 1 1 739000 (mk_time 19 0) (Some (mk_time 21 0)) ''confirmed'',
      (example_row 2 1 739000 (mk_time 20 0) (Some (mk_time 22 0)) ''confirmed'')
        \<lparr>d_updated_at := Some (Some (DateTime 739000 0))\<rparr>] \<and>
   log (snd (update_booking 2 (example_booking 1 739000 (mk_time 20 0) (mk_time 22 0) 2)
          (DateTime 739000 0)
          (example_store [example_table 1 True]
             [example_row 1 1 739000 (mk_time 19 0) (Some (mk_time 21 0)) ''confirmed'',
              example_row 2 1 739000 (mk_time 21 0) (Some (mk_time 22 0)) ''confirmed'']))) =
     [Update ''bookings'']"
  by (simp add: model_defs write_defs example_defs Let_def)

section \<open>Failures of the store\<close>

lemma delete_booking_False_rows:
  "fst (delete_booking i s) = False \<Longrightarrow>
     bookings_rows (snd (delete_booking i s)) = bookings_rows s"
proof (cases "faults s (Delete ''bookings'')")
  case (Some e)
  then show ?thesis
    by (simp add: delete_booking_def driver_delete_booking_by_id_def)
next
  case None
  assume "fst (delete_booking i s) = False"
  with None have "filter (\<lambda>r. d_id r = Some (Some i)) (bookings_rows s) = []"
    by (simp add: delete_booking_def driver_delete_booking_by_id_def)
  then have "filter (\<lambda>r. d_id r \<noteq> Some (Some i)) (bookings_rows s) = bookings_rows s"
    by (auto simp: filter_empty_conv filter_id_conv)
  with None show ?thesis
    by (simp add: delete_booking_def driver_delete_booking_by_id_def)
qed

lemma create_booking_insert_fault:
  assumes "faults s (Insert ''bookings'') \<noteq> None"
  shows "fst (create_booking b s) = None"
  using create_booking_cases [of b s]
proof
  assume "\<exists>s'. create_booking b s = (None, s') \<and> bookings_rows s' = bookings_rows s"
  then show ?thesis by auto
next
  assume "\<exists>data s1 r s2. to_dict b = Inr data \<and> bookings_rows s1 = bookings_rows s \<and>
      faults s1 = faults s \<and> driver_create_booking data s1 = (r, s2) \<and>
      create_booking b s = (case r of Inl e \<Rightarrow> None | Inr booking_id \<Rightarrow> booking_id, s2)"
  then obtain data s1 r s2 where f: "faults s1 = faults s"
    and ins: "driver_create_booking data s1 = (r, s2)"
    and cb: "create_booking b s = (case r of Inl e \<Rightarrow> None | Inr booking_id \<Rightarrow> booking_id, s2)"
    by blast
  from ins f assms have "\<exists>e. r = Inl e"
    by (auto simp: driver_create_booking_def split: if_splits)
  with cb show ?thesis by auto
qed

lemma create_booking_table_fault:
  assumes "\<And>d st en. fst (check_table_availability (table_id b) d st en s None) =
     \<lparr>available = False, table_exists = False, table_active = False, conflicting_booking = None\<rparr>"
  shows "fst (create_booking b s) = None"
proof (cases "booking_end_time b")
  case None
  then show ?thesis by (simp add: create_booking_def)
next
  case (Some e)
  have "\<not> available (fst (check_table_availability (table_id b)
         (map_option date_part (booking_date b)) (map_option time_part (booking_time b))
         (Some (time_part e)) s None))"
    by (simp add: assms)
  then show ?thesis
    using Some by (auto simp: create_booking_def Let_def split: prod.splits)
qed

text \<open>
  C5, as amended. A failure of the statement an operation writes with (the insert of
  \<open>create_booking\<close>, the update of \<open>update_booking\<close>, the delete of \<open>delete_booking\<close>)
  comes back as the ordinary failure value of the operation: \<open>None\<close> from
  \<open>create_booking\<close>, \<open>False\<close> from \<open>update_booking\<close> and \<open>delete_booking\<close>. A failure of
  the table lookup comes back from \<open>check_table_availability\<close> as the result with
  \<open>table_exists\<close>, \<open>table_active\<close> and \<open>available\<close> false and no conflicting booking, and
  from \<open>create_booking\<close> as \<open>None\<close>. Whenever \<open>create_booking\<close> returns \<open>None\<close>, or
  \<open>update_booking\<close> or \<open>delete_booking\<close> returns \<open>False\<close>, the stored rows are as they were.
\<close>

theorem store_failure_gives_failure_value:
  "(faults s (Select ''restaurant_tables'') \<noteq> None \<longrightarrow>
      fst (check_table_availability t d st en s ex) =
        \<lparr>available = False, table_exists = False, table_active = False,
          conflicting_booking = None\<rparr> \<and>
      fst (create_booking b s) = None) \<and>
   (faults s (Insert ''bookings'') \<noteq> None \<longrightarrow> fst (create_booking b s) = None) \<and>
   (faults s (Update ''bookings'') \<noteq> None \<longrightarrow> fst (update_booking i b now s) = False) \<and>
   (faults s (Delete ''bookings'') \<noteq> None \<longrightarrow> fst (delete_booking i s) = False) \<and>
   (fst (create_booking b s) = None \<longrightarrow>
      bookings_rows (snd (create_booking b s)) = bookings_rows s) \<and>
   (fst (update_booking i b now s) = False \<longrightarrow>
      bookings_rows (snd (update_booking i b now s)) = bookings_rows s) \<and>
   (fst (delete_booking i s) = False \<longrightarrow>
      bookings_rows (snd (delete_booking i s)) = bookings_rows s)"
proof -
  have tables: "fst (check_table_availability t' d' st' en' s ex') =
        \<lparr>available = False, table_exists = False, table_active = False,
          conflicting_booking = None\<rparr>"
    if "faults s (Select ''restaurant_tables'') \<noteq> None" for t' d' st' en' ex'
    using that by (auto simp: check_result fst_read_table)
  have upd: "fst (update_booking i b now s) = False"
    if "faults s (Update ''bookings'') \<noteq> None"
    using that
    by (auto simp: update_booking_def driver_update_booking_by_id_def split: sum.splits)
  have del: "fst (delete_booking i s) = False"
    if "faults s (Delete ''bookings'') \<noteq> None"
    using that by (auto simp: delete_booking_def driver_delete_booking_by_id_def)
  show ?thesis
    using tables create_booking_table_fault [of b s] create_booking_insert_fault [of s b]
      upd del create_booking_None_rows [of b s] update_booking_False_rows [of i b now s]
      delete_booking_False_rows [of i s]
    by (intro conjI impI) auto
qed

theorem store_failure_gives_failure_value_witness:
  "faults (store_down (example_store [example_table 1 True]
      [example_row 1 1 739000 (mk_time 19 0) (Some (mk_time 21 0)) ''confirmed''])) 
      (Select ''restaurant_tables'') = Some ConnectionError \<and>
   fst (create_booking (example_booking 1 739000 (mk_time 21 0) (mk_time 22 0) 2)
      (store_down (example_store [example_table 1 True]
        [example_row 1 1 739000 (mk_time 19 0) (Some (mk_time 21 0)) ''confirmed'']))) = None \<and>
   fst (update_booking 1 (example_booking 1 739000 (mk_time 21 0) (mk_time 22 0) 2)
      (DateTime 739000 0)
      (store_down (example_store [example_table 1 True]
        [example_row 1 1 739000 (mk_time 19 0) (Some (mk_time 21 0)) ''confirmed'']))) = False \<and>
   fst (delete_booking 1
      (store_down (example_store [example_table 1 True]
        [example_row 1 1 739000 (mk_time 19 0) (Some (mk_time 21 0)) ''confirmed'']))) = False \<and>
   bookings_rows (snd (delete_booking 1
      (store_down (example_store [example_table 1 True]
        [example_row 1 1 739000 (mk_time 19 0) (Some (mk_time 21 0)) ''confirmed''])))) =
     [example_row 1 1 739000 (mk_time 19 0) (Some (mk_time 21 0)) ''confirmed'']"
  using store_failure_gives_failure_value
      [where s = "store_down (example_store [example_table 1 True]
          [example_row 1 1 739000 (mk_time 19 0) (Some (mk_time 21 0)) ''confirmed''])"
        and b = "example_booking 1 739000 (mk_time 21 0) (mk_time 22 0) 2" and i = 1
        and now = "DateTime 739000 0" and t = 1 and d = "Some 739000"
        and st = "Some (mk_time 21 0)" and en = "Some (mk_time 22 0)" and ex = None]
  by (simp add: example_defs)

text \<open>
  The claim as stated fails. With the connection down, the availability check and
  \<open>create_booking\<close> answer exactly as they do for a table that does not exist; and when
  only the read of \<open>bookings\<close> raises, \<open>read_bookings\<close> hands back the empty list, the
  table booked from 19:00 to 21:00 is reported available for 19:00 to 21:00, and
  \<open>create_booking\<close> inserts a second booking for that window.
\<close>

theorem store_failure_swallowed:
  "fst (driver_read_table_by_id 1 (store_down (example_store [example_table 1 True] []))) =
     Inl ConnectionError \<and>
   fst (check_table_availability 1 (Some 739000) (Some (mk_time 19 0)) (Some (mk_time 21 0))
          (store_down (example_store [example_table 1 True] [])) None) =
   fst (check_table_availability 1 (Some 739000) (Some (mk_time 19 0)) (Some (mk_time 21 0))
          (example_store [] []) None) \<and>
   fst (create_booking (example_booking 1 739000 (mk_time 19 0) (mk_time 21 0) 2)
          (store_down (example_store [example_table 1 True] []))) =
   fst (create_booking (example_booking 1 739000 (mk_time 19 0) (mk_time 21 0) 2)
          (example_store [] [])) \<and>
   fst (driver_read_bookings (where_conditions 1 (Some 739000))
          (bookings_unreadable (example_store [example_table 1 True]
             [example_row 1 1 739000 (mk_time 19 0) (Some (mk_time 21 0)) ''confirmed'']))) =
     Inl ConnectionError \<and>
   available (fst (check_table_availability 1 (Some 739000) (Some (mk_time 19 0))
          (Some (mk_time 21 0))
          (bookings_unreadable (example_store [example_table 1 True]
             [example_row 1 1 739000 (mk_time 19 0) (Some (mk_time 21 0)) ''confirmed''])) None)) \<and>
   fst (create_booking (example_booking 1 739000 (mk_time 19 0) (mk_time 21 0) 2)
          (bookings_unreadable (example_store [example_table 1 True]
             [example_row 1 1 739000 (mk_time 19 0) (Some (mk_time 21 0)) ''confirmed'']))) =
     Some 100 \<and>
   length (bookings_rows (snd (create_booking
          (example_booking 1 739000 (mk_time 19 0) (mk_time 21 0) 2)
          (bookings_unreadable (example_store [example_table 1 True]
             [example_row 1 1 739000 (mk_time 19 0) (Some (mk_time 21 0)) ''confirmed'']))))) = 2"
  by (simp add: model_defs write_defs example_defs Let_def)

section \<open>The row of a booking\<close>

text \<open>
  C10. For every booking whose \<open>booking_date\<close> is a plain date and whose \<open>booking_time\<close>
  and \<open>booking_end_time\<close> are plain times, the end time being present, \<open>to_dict\<close> returns
  a dictionary without the key \<open>id\<close>, and \<open>from_dict\<close> of it is the booking again in every
  field but \<open>id\<close>, which is \<open>None\<close>.
\<close>

theorem booking_round_trip:
  "booking_date b = Some (D_date d) \<and> booking_time b = Some (T_time st) \<and>
   booking_end_time b = Some (T_time en) \<longrightarrow>
     (case to_dict b of
        Inl e \<Rightarrow> False
      | Inr data \<Rightarrow> d_id data = None \<and> from_dict data = b\<lparr>bid := None\<rparr>)"
  by (simp add: to_dict_def from_dict_def empty_dict_def get_opt_def get_default_def Let_def)

theorem booking_round_trip_witness:
  "booking_date ((example_booking 1 739000 (mk_time 19 0) (mk_time 21 0) 2)\<lparr>bid := Some 7\<rparr>) =
     Some (D_date 739000) \<and>
   booking_time ((example_booking 1 739000 (mk_time 19 0) (mk_time 21 0) 2)\<lparr>bid := Some 7\<rparr>) =
     Some (T_time (mk_time 19 0)) \<and>
   booking_end_time ((example_booking 1 739000 (mk_time 19 0) (mk_time 21 0) 2)\<lparr>bid := Some 7\<rparr>) =
     Some (T_time (mk_time 21 0)) \<and>
   map_sum id from_dict
       (to_dict ((example_booking 1 739000 (mk_time 19 0) (mk_time 21 0) 2)\<lparr>bid := Some 7\<rparr>)) =
     Inr (example_booking 1 739000 (mk_time 19 0) (mk_time 21 0) 2)"
  using booking_round_trip
      [where b = "(example_booking 1 739000 (mk_time 19 0) (mk_time 21 0) 2)\<lparr>bid := Some 7\<rparr>"
        and d = 739000 and st = "mk_time 19 0" and en = "mk_time 21 0"]
  by (simp add: example_booking_def to_dict_def from_dict_def empty_dict_def get_opt_def
        get_default_def Let_def)

end
